theory Spec2Isabelle
  imports Complex_Main
begin

text \<open>
  A shallow embedding of three pieces of the VAMPIRE sources: the initialisation of the dipole
  module (\<^verbatim>\<open>dipole::initialize\<close>), the standard-deviation statistic
  (\<^verbatim>\<open>stats::standard_deviation_statistic_t\<close>) and the parameter matching of the vio module.

  Conventions. A \<^verbatim>\<open>double\<close> is a real number: the arithmetic is exact, and a division by zero
  is an error value instead of a non-finite number. An \<^verbatim>\<open>int\<close> is a mathematical integer; the
  product and the sums of \<^verbatim>\<open>int\<close>s in \<^verbatim>\<open>dipole::initialize\<close> are checked against the 32-bit
  range, outside of which they are undefined; the index arithmetic of the statistic stays
  within the sizes of its vectors. A \<^verbatim>\<open>std::vector\<close> is a list; an index outside the vector,
  which is undefined in C++, is the error \<open>Out_of_range\<close>. Elapsed times are not modelled.
  A function that can fail returns \<open>error + 'a\<close>, with \<open>Inl\<close> for the failure.
\<close>

section \<open>Common definitions\<close>

datatype error =
    Out_of_range
  | Division_by_zero
  | Signed_overflow
  | Allocation_failure
  | Vexit

definition ebind :: "error + 'a \<Rightarrow> ('a \<Rightarrow> error + 'b) \<Rightarrow> error + 'b" where
  "ebind m f = (case m of Inl e \<Rightarrow> Inl e | Inr x \<Rightarrow> f x)"

text \<open>\<^verbatim>\<open>xs[i]\<close> on a vector.\<close>

definition vec_at :: "'a list \<Rightarrow> int \<Rightarrow> error + 'a" where
  "vec_at xs i = (if 0 \<le> i \<and> i < int (length xs) then Inr (xs ! nat i) else Inl Out_of_range)"

text \<open>Division of doubles.\<close>

definition fdiv :: "real \<Rightarrow> real \<Rightarrow> error + real" where
  "fdiv a b = (if b = 0 then Inl Division_by_zero else Inr (a / b))"

text \<open>\<^verbatim>\<open>for(k = i; k < i + n; k++) acc = body(k, acc)\<close>; the loop stops at the first failure.\<close>

fun for_loop :: "nat \<Rightarrow> nat \<Rightarrow> (nat \<Rightarrow> 'a \<Rightarrow> error + 'a) \<Rightarrow> 'a \<Rightarrow> error + 'a" where
  "for_loop i 0 body acc = Inr acc"
| "for_loop i (Suc k) body acc =
     (case body i acc of Inl e \<Rightarrow> Inl e | Inr acc' \<Rightarrow> for_loop (Suc i) k body acc')"

text \<open>\<^verbatim>\<open>xs.resize(n, v)\<close>: the first \<open>n\<close> elements are kept, new elements are \<open>v\<close>.\<close>

definition resize :: "nat \<Rightarrow> 'a \<Rightarrow> 'a list \<Rightarrow> 'a list" where
  "resize n v xs = take n xs @ replicate (n - length xs) v"

section \<open>The vio module: parameter matching\<close>

text \<open>
  \<^verbatim>\<open>vio::match_input_parameter\<close> compares the key with the prefix \<^verbatim>\<open>"vio"\<close> and returns
  false when they differ; the remaining path ("Keyword not found") returns false as well.
  \<^verbatim>\<open>vio::match_material_parameter\<close> builds the prefix \<^verbatim>\<open>"material:"\<close> and returns false.
\<close>

definition match_input_parameter :: "string \<Rightarrow> string \<Rightarrow> string \<Rightarrow> string \<Rightarrow> int \<Rightarrow> bool" where
  "match_input_parameter key word val unit line =
     (let prefix = ''vio'' in
      if key \<noteq> prefix then False
      else False)"

definition match_material_parameter ::
  "string \<Rightarrow> string \<Rightarrow> string \<Rightarrow> int \<Rightarrow> int \<Rightarrow> int \<Rightarrow> bool" where
  "match_material_parameter word val unit line super_index sub_index =
     (let prefix = ''material:'' in False)"

section \<open>The standard-deviation statistic\<close>

text \<open>Of the magnetization statistic only \<^verbatim>\<open>is_initialized()\<close> and \<^verbatim>\<open>get_magnetization()\<close>
  are used.\<close>

record magnetization_statistic_t =
  mag_initialized :: bool
  magnetization :: "real list"

text \<open>The members of \<^verbatim>\<open>standard_deviation_statistic_t\<close>.\<close>

record standard_deviation_statistic_t =
  initialized :: bool
  num_elements :: int
  idx :: int
  res1 :: real
  res2 :: real
  mean_counter :: real
  residual_sq :: "real list"
  mean :: "real list"

text \<open>The constructor has an empty body: the two vectors start empty, the other members are
  not set. \<^verbatim>\<open>initialize\<close> resizes the vectors, which keeps the elements they already have, so
  the residuals are zero after it when they hold no other value before it: in a newly
  constructed statistic, and after \<^verbatim>\<open>reset_averages\<close>.\<close>

definition residuals_clear :: "standard_deviation_statistic_t \<Rightarrow> bool" where
  "residuals_clear s \<longleftrightarrow> list_all (\<lambda>r. r = 0) (residual_sq s)"

text \<open>\<^verbatim>\<open>standard_deviation_statistic_t::initialize\<close>; \<^verbatim>\<open>err::vexit()\<close> ends the program.\<close>

definition standard_deviation_initialize ::
  "magnetization_statistic_t \<Rightarrow> standard_deviation_statistic_t
     \<Rightarrow> error + standard_deviation_statistic_t" where
  "standard_deviation_initialize mag_stat s =
     (if \<not> mag_initialized mag_stat then Inl Vexit
      else
        let temp = magnetization mag_stat;
            n = int (length temp div 4)
        in Inr (s\<lparr> num_elements := n,
                   residual_sq := resize (nat (4 * n)) 0 (residual_sq s),
                   mean := resize (nat (4 * n)) 0 (mean s),
                   mean_counter := 0,
                   initialized := True \<rparr>))"

text \<open>The body of the inner loop of \<^verbatim>\<open>update\<close>, for element \<open>ident\<close> and direction \<open>dir\<close>.\<close>

definition update_element ::
  "real list \<Rightarrow> nat \<Rightarrow> nat \<Rightarrow> standard_deviation_statistic_t
     \<Rightarrow> error + standard_deviation_statistic_t" where
  "update_element magn ident dir s =
     (let i = 4 * int ident + int dir in
      ebind (vec_at magn i) (\<lambda>m.
      ebind (vec_at (mean s) i) (\<lambda>mu.
      let r1 = m - mu in
      ebind (fdiv r1 (mean_counter s)) (\<lambda>q.
      let mu' = mu + q;
          r2 = m - mu' in
      ebind (vec_at (residual_sq s) i) (\<lambda>rs.
        Inr (s\<lparr> idx := i, res1 := r1, res2 := r2,
                 mean := (mean s)[nat i := mu'],
                 residual_sq := (residual_sq s)[nat i := rs + r1 * r2] \<rparr>))))))"

text \<open>\<^verbatim>\<open>standard_deviation_statistic_t::update\<close>.\<close>

definition standard_deviation_update ::
  "real list \<Rightarrow> standard_deviation_statistic_t \<Rightarrow> error + standard_deviation_statistic_t" where
  "standard_deviation_update magn s =
     (let s1 = s\<lparr> mean_counter := mean_counter s + 1 \<rparr> in
      for_loop 0 (nat (num_elements s1))
        (\<lambda>ident. for_loop 0 4 (update_element magn ident)) s1)"

text \<open>One call of \<^verbatim>\<open>update\<close> for each vector of a list, in order.\<close>

fun standard_deviation_updates ::
  "real list list \<Rightarrow> standard_deviation_statistic_t \<Rightarrow> error + standard_deviation_statistic_t" where
  "standard_deviation_updates [] s = Inr s"
| "standard_deviation_updates (v # vs) s =
     (case standard_deviation_update v s of Inl e \<Rightarrow> Inl e
      | Inr s' \<Rightarrow> standard_deviation_updates vs s')"

text \<open>The state of one call of \<^verbatim>\<open>update\<close> with the vector \<open>v\<close>, started in \<open>s\<close> with the
  incremented counter \<open>c\<close>, when the indices below \<open>p\<close> have been treated.\<close>

definition welford_step ::
  "real \<Rightarrow> nat \<Rightarrow> standard_deviation_statistic_t \<Rightarrow> real list \<Rightarrow> nat
     \<Rightarrow> standard_deviation_statistic_t \<Rightarrow> bool" where
  "welford_step c M s v p t \<longleftrightarrow>
     num_elements t = num_elements s \<and> mean_counter t = c \<and>
     length (mean t) = M \<and> length (residual_sq t) = M \<and>
     (\<forall>i<M. if i < p
        then mean t ! i = mean s ! i + (v ! i - mean s ! i) / c \<and>
             residual_sq t ! i = residual_sq s ! i +
               (v ! i - mean s ! i) * (v ! i - (mean s ! i + (v ! i - mean s ! i) / c))
        else mean t ! i = mean s ! i \<and> residual_sq t ! i = residual_sq s ! i)"

text \<open>The invariant of Welford's algorithm after the vectors \<open>ps\<close>, in a form without
  division: the counter is their number, the mean times the counter is their sum, and the
  residual is the sum of their squares less the counter times the squared mean.\<close>

definition welford_inv :: "standard_deviation_statistic_t \<Rightarrow> real list list \<Rightarrow> bool" where
  "welford_inv s ps \<longleftrightarrow>
     0 \<le> num_elements s \<and>
     length (mean s) = 4 * nat (num_elements s) \<and>
     length (residual_sq s) = 4 * nat (num_elements s) \<and>
     mean_counter s = real (length ps) \<and>
     (\<forall>i < 4 * nat (num_elements s).
        real (length ps) * mean s ! i = (\<Sum>v\<leftarrow>ps. v ! i) \<and>
        residual_sq s ! i = (\<Sum>v\<leftarrow>ps. (v ! i)\<^sup>2) - real (length ps) * (mean s ! i)\<^sup>2)"

section \<open>The dipole module\<close>

subsection \<open>Data\<close>

text \<open>
  The six independent components of a symmetric 3x3 tensor: the locals \<^verbatim>\<open>Nxx\<close> .. \<^verbatim>\<open>Nzz\<close> of
  \<^verbatim>\<open>dipole::initialize\<close>. Doubles are modelled as reals (exact arithmetic); a division whose
  divisor is zero, which gives a non-finite double, is the value \<open>Inl Division_by_zero\<close>.
\<close>

record demag_factors =
  Nxx :: real
  Nxy :: real
  Nxz :: real
  Nyy :: real
  Nyz :: real
  Nzz :: real

text \<open>The twelve arrays \<^verbatim>\<open>dipole::internal::rij_inter_xx\<close> .. \<^verbatim>\<open>rij_intra_zz\<close>, each indexed
  \<^verbatim>\<open>[local cell][cell]\<close>.\<close>

record tensors =
  rij_inter_xx :: "real list list"
  rij_inter_xy :: "real list list"
  rij_inter_xz :: "real list list"
  rij_inter_yy :: "real list list"
  rij_inter_yz :: "real list list"
  rij_inter_zz :: "real list list"
  rij_intra_xx :: "real list list"
  rij_intra_xy :: "real list list"
  rij_intra_xz :: "real list list"
  rij_intra_yy :: "real list list"
  rij_intra_yz :: "real list list"
  rij_intra_zz :: "real list list"

type_synonym vec3 = "real \<times> real \<times> real"

text \<open>The lines written to the log file and to the console. Elapsed times, which come from
  the wall clock, are left out of the lines that print them.\<close>

datatype message =
    Already_initialised
  | Initialising
  | Memory_required real
  | Number_of_local_cells int
  | Number_of_total_cells int
  | Precalculating
  | Done
  | Precalculation_complete
  | Time_required
  | Outputting_dipole_matrix
  | Demag_header
  | Demag_values "error + demag_factors"

text \<open>What \<^verbatim>\<open>dipole::initialize\<close> does that is visible from outside, in order: lines on
  \<^verbatim>\<open>std::cout\<close> and \<^verbatim>\<open>zlog\<close>, calls to the collaborators, and the assignment to the
  initialised flag.\<close>

datatype event =
    Cout message
  | Zlog message
  | Call_allocate_memory int int
  | Call_initialize_tensor_solver
  | Call_barrier
  | Set_initialised
  | Call_calculate_field

text \<open>The parameters of \<^verbatim>\<open>dipole::initialize\<close>.\<close>

record initialize_args =
  arg_cells_num_atoms_in_unit_cell :: int
  arg_cells_num_cells :: int
  arg_cells_num_local_cells :: int
  arg_cells_macro_cell_size :: real
  arg_cells_local_cell_array :: "int list"
  arg_cells_num_atoms_in_cell :: "int list"
  arg_cells_num_atoms_in_cell_global :: "int list"
  arg_cells_index_atoms_array :: "int list list"
  arg_cells_volume_array :: "real list"
  arg_cells_pos_and_mom_array :: "real list"
  arg_cells_atom_in_cell_coords_array_x :: "real list list"
  arg_cells_atom_in_cell_coords_array_y :: "real list list"
  arg_cells_atom_in_cell_coords_array_z :: "real list list"
  arg_atom_type_array :: "int list"
  arg_atom_cell_id_array :: "int list"
  arg_atom_coords_x :: "real list"
  arg_atom_coords_y :: "real list"
  arg_atom_coords_z :: "real list"
  arg_num_atoms :: int

text \<open>
  The global variables the function reads and writes: \<^verbatim>\<open>dipole::activated\<close>, the variables of
  \<^verbatim>\<open>dipole::internal\<close> (under their own names), \<^verbatim>\<open>cells::num_cells\<close>,
  \<^verbatim>\<open>cells::num_atoms_in_cell\<close>, \<^verbatim>\<open>cells::cell_id_array\<close> (prefixed \<open>cells_ns_\<close>) and
  \<^verbatim>\<open>sim::time\<close>; the per-cell moments and the field of the field evaluator; and the trace of
  events so far.
\<close>

record dipole_state =
  activated :: bool
  initialised :: bool
  num_atoms :: int
  atom_type_array :: "int list"
  atom_cell_id_array :: "int list"
  cells_num_cells :: int
  cells_num_local_cells :: int
  cells_local_cell_array :: "int list"
  cells_num_atoms_in_cell :: "int list"
  cells_volume_array :: "real list"
  cells_pos_and_mom_array :: "real list"
  rij :: tensors
  cells_ns_num_cells :: int
  cells_ns_num_atoms_in_cell :: "int list"
  cells_ns_cell_id_array :: "int list"
  sim_time :: nat
  cell_moments :: "vec3 list"
  dipole_field :: "vec3 list"
  trace :: "event list"

text \<open>
  Modelled from the spec: the tensor builder \<^verbatim>\<open>dipole::internal::initialize_tensor_solver\<close>
  is not among the sources. Its side effect is that it "writes the full Interaction Tensor
  Entry storage"; what it writes is left open: the builder is a parameter, any function from
  the arguments and the state at the call to the contents of the twelve arrays.
\<close>

type_synonym tensor_solver = "initialize_args \<Rightarrow> dipole_state \<Rightarrow> tensors"

subsection \<open>Collaborators\<close>

definition emit :: "event list \<Rightarrow> dipole_state \<Rightarrow> dipole_state" where
  "emit es s = s\<lparr> trace := trace s @ es \<rparr>"

text \<open>
  Modelled from the spec: \<^verbatim>\<open>dipole::internal::allocate_memory\<close> is not among the sources. The
  tensor storage "is allocated once, sized num_local_cells x num_cells", in twelve arrays
  ("two tensors x six components"); resource exhaustion during the allocation is fatal. A
  negative count is taken as such a failure.
\<close>

definition allocate_memory :: "int \<Rightarrow> int \<Rightarrow> dipole_state \<Rightarrow> error + dipole_state" where
  "allocate_memory num_local_cells num_cells s =
     (if num_local_cells < 0 \<or> num_cells < 0 then Inl Allocation_failure
      else
        let z = replicate (nat num_local_cells) (replicate (nat num_cells) 0)
        in Inr (s\<lparr> rij := \<lparr> rij_inter_xx = z, rij_inter_xy = z, rij_inter_xz = z,
                             rij_inter_yy = z, rij_inter_yz = z, rij_inter_zz = z,
                             rij_intra_xx = z, rij_intra_xy = z, rij_intra_xz = z,
                             rij_intra_yy = z, rij_intra_yz = z, rij_intra_zz = z \<rparr> \<rparr>))"

text \<open>The number of doubles held by the twelve arrays.\<close>

definition tensor_scalars :: "tensors \<Rightarrow> nat" where
  "tensor_scalars ts =
     (\<Sum>m\<leftarrow>[rij_inter_xx ts, rij_inter_xy ts, rij_inter_xz ts,
            rij_inter_yy ts, rij_inter_yz ts, rij_inter_zz ts,
            rij_intra_xx ts, rij_intra_xy ts, rij_intra_xz ts,
            rij_intra_yy ts, rij_intra_yz ts, rij_intra_zz ts]. \<Sum>row\<leftarrow>m. length row)"

text \<open>One entry of a two-dimensional array, \<^verbatim>\<open>m[lc][j]\<close>.\<close>

definition vec_at2 :: "'a list list \<Rightarrow> int \<Rightarrow> int \<Rightarrow> error + 'a" where
  "vec_at2 m lc j = ebind (vec_at m lc) (\<lambda>row. vec_at row j)"

text \<open>The six sums \<^verbatim>\<open>rij_intra_c[lc][j] + rij_inter_c[lc][j]\<close>, read in the order of the six
  accumulation statements.\<close>

definition rij_total :: "tensors \<Rightarrow> int \<Rightarrow> int \<Rightarrow> error + demag_factors" where
  "rij_total ts lc j =
     ebind (vec_at2 (rij_intra_xx ts) lc j) (\<lambda>axx. ebind (vec_at2 (rij_inter_xx ts) lc j) (\<lambda>exx.
     ebind (vec_at2 (rij_intra_xy ts) lc j) (\<lambda>axy. ebind (vec_at2 (rij_inter_xy ts) lc j) (\<lambda>exy.
     ebind (vec_at2 (rij_intra_xz ts) lc j) (\<lambda>axz. ebind (vec_at2 (rij_inter_xz ts) lc j) (\<lambda>exz.
     ebind (vec_at2 (rij_intra_yy ts) lc j) (\<lambda>ayy. ebind (vec_at2 (rij_inter_yy ts) lc j) (\<lambda>eyy.
     ebind (vec_at2 (rij_intra_yz ts) lc j) (\<lambda>ayz. ebind (vec_at2 (rij_inter_yz ts) lc j) (\<lambda>eyz.
     ebind (vec_at2 (rij_intra_zz ts) lc j) (\<lambda>azz. ebind (vec_at2 (rij_inter_zz ts) lc j) (\<lambda>ezz.
       Inr \<lparr> Nxx = axx + exx, Nxy = axy + exy, Nxz = axz + exz,
             Nyy = ayy + eyy, Nyz = ayz + eyz, Nzz = azz + ezz \<rparr>))))))))))))"

text \<open>
  Modelled from the spec: \<^verbatim>\<open>dipole::calculate_field\<close> is not among the sources. The field
  evaluator computes, for every local cell, \<open>field_i = \<Sum>j (intra[i][j] + inter[i][j]) \<cdot> moment_j\<close>
  as a 3x3 matrix-vector product; the tensor is read-only; with the feature flag off it is a
  no-op, and it is gated behind the initialised flag.
\<close>

definition field_term :: "demag_factors \<Rightarrow> vec3 \<Rightarrow> vec3 \<Rightarrow> vec3" where
  "field_term t m acc =
     (case m of (mx, my, mz) \<Rightarrow> case acc of (fx, fy, fz) \<Rightarrow>
        (fx + (Nxx t * mx + Nxy t * my + Nxz t * mz),
         fy + (Nxy t * mx + Nyy t * my + Nyz t * mz),
         fz + (Nxz t * mx + Nyz t * my + Nzz t * mz)))"

definition cell_field :: "dipole_state \<Rightarrow> nat \<Rightarrow> error + vec3" where
  "cell_field s lc =
     for_loop 0 (nat (cells_num_cells s))
       (\<lambda>j acc. ebind (rij_total (rij s) (int lc) (int j)) (\<lambda>t.
                 ebind (vec_at (cell_moments s) (int j)) (\<lambda>m. Inr (field_term t m acc))))
       (0, 0, 0)"

definition calculate_field :: "dipole_state \<Rightarrow> error + dipole_state" where
  "calculate_field s =
     (if \<not> activated s \<or> \<not> initialised s then Inr s
      else ebind (for_loop 0 (nat (cells_num_local_cells s))
                    (\<lambda>lc fs. ebind (cell_field s lc) (\<lambda>f. Inr (fs @ [f]))) [])
             (\<lambda>fs. Inr (s\<lparr> dipole_field := fs \<rparr>)))"

subsection \<open>The memory estimate\<close>

text \<open>
  \<^verbatim>\<open>double(cells_num_cells)*double(cells_num_local_cells*6)*8.0/1.0e6\<close>, in MB. The product
  \<^verbatim>\<open>cells_num_local_cells*6\<close> is taken on \<^verbatim>\<open>int\<close>: outside the 32-bit range it is undefined.
\<close>

definition int_ok :: "int \<Rightarrow> bool" where
  "int_ok x \<longleftrightarrow> - 2147483648 \<le> x \<and> x \<le> 2147483647"

definition memory_required :: "int \<Rightarrow> int \<Rightarrow> error + real" where
  "memory_required num_cells num_local_cells =
     (if int_ok (num_local_cells * 6)
      then Inr (real_of_int num_cells * real_of_int (num_local_cells * 6) * 8 / 1000000)
      else Inl Signed_overflow)"

text \<open>The storage as the spec documents it: \<open>local_cells \<times> global_cells \<times> 12\<close> scalars, of
  8 bytes each.\<close>

definition documented_storage_bytes :: "int \<Rightarrow> int \<Rightarrow> int" where
  "documented_storage_bytes num_cells num_local_cells = num_local_cells * num_cells * 12 * 8"

subsection \<open>The demagnetizing diagnostic\<close>

definition demag_zero :: demag_factors where
  "demag_zero = \<lparr> Nxx = 0, Nxy = 0, Nxz = 0, Nyy = 0, Nyz = 0, Nzz = 0 \<rparr>"

text \<open>The six statements \<^verbatim>\<open>Nc += factor*(rij_intra_c[lc][j]+rij_inter_c[lc][j])\<close>.\<close>

definition demag_add_scaled :: "demag_factors \<Rightarrow> real \<Rightarrow> demag_factors \<Rightarrow> demag_factors" where
  "demag_add_scaled N factor t =
     \<lparr> Nxx = Nxx N + factor * Nxx t, Nxy = Nxy N + factor * Nxy t, Nxz = Nxz N + factor * Nxz t,
       Nyy = Nyy N + factor * Nyy t, Nyz = Nyz N + factor * Nyz t, Nzz = Nzz N + factor * Nzz t \<rparr>"

text \<open>The number of magnetic atoms: the first loop over the local cells.\<close>

definition int_add :: "int \<Rightarrow> int \<Rightarrow> error + int" where
  "int_add a b = (if int_ok (a + b) then Inr (a + b) else Inl Signed_overflow)"

definition count_magnetic_atoms :: "dipole_state \<Rightarrow> error + int" where
  "count_magnetic_atoms s =
     for_loop 0 (nat (cells_num_local_cells s))
       (\<lambda>lc num_atoms_magnetic.
          ebind (vec_at (cells_ns_cell_id_array s) (int lc)) (\<lambda>i.
          ebind (vec_at (cells_num_atoms_in_cell s) i) (\<lambda>n.
          int_add num_atoms_magnetic n)))
       0"

text \<open>The body of the inner loop, for the local cell \<open>lc\<close> with cell id \<open>i\<close> and the cell \<open>j\<close>.\<close>

definition demag_cell_pair ::
  "dipole_state \<Rightarrow> nat \<Rightarrow> int \<Rightarrow> nat \<Rightarrow> demag_factors \<Rightarrow> error + demag_factors" where
  "demag_cell_pair s lc i j N =
     ebind (vec_at (cells_num_atoms_in_cell s) (int j)) (\<lambda>nj.
     if nj > 0 then
       ebind (vec_at (cells_volume_array s) (int j)) (\<lambda>vol.
       ebind (fdiv vol (real_of_int nj)) (\<lambda>Vatomic.
       ebind (vec_at (cells_num_atoms_in_cell s) i) (\<lambda>ni.
       let factor = Vatomic * real_of_int nj * real_of_int ni in
       ebind (rij_total (rij s) (int lc) (int j)) (\<lambda>t.
         Inr (demag_add_scaled N factor t)))))
     else Inr N)"

text \<open>The body of the outer loop, for the local cell \<open>lc\<close>.\<close>

definition demag_local_cell :: "dipole_state \<Rightarrow> nat \<Rightarrow> demag_factors \<Rightarrow> error + demag_factors" where
  "demag_local_cell s lc N =
     ebind (vec_at (cells_ns_cell_id_array s) (int lc)) (\<lambda>i.
     ebind (vec_at (cells_num_atoms_in_cell s) i) (\<lambda>ni.
     if ni > 0 then
       ebind (vec_at (rij_inter_xx (rij s)) (int lc)) (\<lambda>row.
         for_loop 0 (length row) (demag_cell_pair s lc i) N)
     else Inr N))"

definition demag_accumulate :: "dipole_state \<Rightarrow> error + demag_factors" where
  "demag_accumulate s =
     for_loop 0 (nat (cells_num_local_cells s)) (demag_local_cell s) demag_zero"

text \<open>
  \<^verbatim>\<open>MPI_Allreduce\<close> with \<^verbatim>\<open>MPI_SUM\<close>: every worker receives the sum of the contributions of
  all workers. The contributions of the other workers are a parameter; the serial build, where
  the reductions are compiled out, is the empty list.
\<close>

definition allreduce_count :: "int list \<Rightarrow> int \<Rightarrow> error + int" where
  "allreduce_count others n =
     (if int_ok (n + sum_list others) then Inr (n + sum_list others) else Inl Signed_overflow)"

definition allreduce_sum :: "real list \<Rightarrow> real \<Rightarrow> real" where
  "allreduce_sum others x = x + sum_list others"

definition allreduce_demag :: "demag_factors list \<Rightarrow> demag_factors \<Rightarrow> demag_factors" where
  "allreduce_demag others N =
     \<lparr> Nxx = allreduce_sum (map Nxx others) (Nxx N), Nxy = allreduce_sum (map Nxy others) (Nxy N),
       Nxz = allreduce_sum (map Nxz others) (Nxz N), Nyy = allreduce_sum (map Nyy others) (Nyy N),
       Nyz = allreduce_sum (map Nyz others) (Nyz N), Nzz = allreduce_sum (map Nzz others) (Nzz N) \<rparr>"

text \<open>The macro \<^verbatim>\<open>M_PI\<close> of \<^verbatim>\<open><cmath>\<close>, by its decimal expansion.\<close>

definition M_PI :: real where
  "M_PI = 314159265358979323846 / 100000000000000000000"

text \<open>"Compute demag factor tensor from dipolar matrix adding self term". With no magnetic
  atom the divisions give non-finite doubles.\<close>

definition demag_normalise :: "demag_factors \<Rightarrow> int \<Rightarrow> error + demag_factors" where
  "demag_normalise N num_atoms_magnetic =
     (if num_atoms_magnetic = 0 then Inl Division_by_zero
      else
        let n = real_of_int num_atoms_magnetic in
        Inr \<lparr> Nxx = ((Nxx N / n) - 4 * M_PI / 3) / (- 4 * M_PI),
              Nxy = (Nxy N / n) / (- 4 * M_PI),
              Nxz = (Nxz N / n) / (- 4 * M_PI),
              Nyy = ((Nyy N / n) - 4 * M_PI / 3) / (- 4 * M_PI),
              Nyz = (Nyz N / n) / (- 4 * M_PI),
              Nzz = ((Nzz N / n) - 4 * M_PI / 3) / (- 4 * M_PI) \<rparr>)"

text \<open>The block guarded by \<^verbatim>\<open>sim::time == 0\<close>, up to the values it prints. The outer result is
  \<open>Inl\<close> when the block leaves the model (an index out of range, a signed overflow); the
  inner one is what is printed, \<open>Inl Division_by_zero\<close> standing for non-finite numbers.\<close>

definition demag_diagnostic ::
  "(int \<times> demag_factors) list \<Rightarrow> dipole_state \<Rightarrow> error + (error + demag_factors)" where
  "demag_diagnostic remote s =
     ebind (count_magnetic_atoms s) (\<lambda>num_atoms_magnetic.
     ebind (demag_accumulate s) (\<lambda>N.
     ebind (allreduce_count (map fst remote) num_atoms_magnetic) (\<lambda>n.
       Inr (demag_normalise (allreduce_demag (map snd remote) N) n))))"

subsection \<open>\<^verbatim>\<open>dipole::initialize\<close>\<close>

text \<open>From the informative message to the end of the tensor build.\<close>

definition build_phase :: "tensor_solver \<Rightarrow> initialize_args \<Rightarrow> dipole_state \<Rightarrow> error + dipole_state" where
  "build_phase solver a s =
     (let s1 = emit [Cout Initialising, Zlog Initialising] s in
      ebind (allocate_memory (arg_cells_num_local_cells a) (arg_cells_num_cells a)
               (emit [Call_allocate_memory (arg_cells_num_local_cells a) (arg_cells_num_cells a)] s1))
        (\<lambda>s2.
      let s3 = s2\<lparr> num_atoms := arg_num_atoms a,
                   atom_type_array := arg_atom_type_array a,
                   atom_cell_id_array := arg_atom_cell_id_array a,
                   cells_num_cells := arg_cells_num_cells a,
                   cells_num_local_cells := arg_cells_num_local_cells a,
                   cells_local_cell_array := arg_cells_local_cell_array a,
                   cells_num_atoms_in_cell := arg_cells_num_atoms_in_cell a,
                   cells_volume_array := arg_cells_volume_array a,
                   cells_pos_and_mom_array := arg_cells_pos_and_mom_array a \<rparr> in
      ebind (memory_required (cells_num_cells s3) (cells_num_local_cells s3)) (\<lambda>mb.
      let s4 = emit [Zlog (Memory_required mb), Cout (Memory_required mb),
                     Zlog (Number_of_local_cells (cells_num_local_cells s3)),
                     Zlog (Number_of_total_cells (cells_num_cells s3)),
                     Zlog Precalculating, Cout Precalculating] s3;
          s5 = (emit [Call_initialize_tensor_solver] s4)\<lparr> rij := solver a s4 \<rparr>;
          s6 = s5\<lparr> cells_ns_num_cells := cells_num_cells s5,
                   cells_ns_num_atoms_in_cell := cells_num_atoms_in_cell s5 \<rparr>;
          s7 = emit [Call_barrier] s6
      in Inr (emit [Cout Done, Zlog Precalculation_complete] s7))))"

text \<open>From setting the flag to the message "Outputting dipole matrix".\<close>

definition first_update_phase :: "dipole_state \<Rightarrow> error + dipole_state" where
  "first_update_phase s =
     (let s1 = (emit [Set_initialised] s)\<lparr> initialised := True \<rparr> in
      ebind (calculate_field (emit [Call_calculate_field] s1)) (\<lambda>s2.
        Inr (emit [Call_barrier, Zlog Time_required, Zlog Outputting_dipole_matrix] s2)))"

text \<open>"Output Demag tensor only if first step of simulation".\<close>

definition demag_phase :: "(int \<times> demag_factors) list \<Rightarrow> dipole_state \<Rightarrow> error + dipole_state" where
  "demag_phase remote s =
     (if sim_time s = 0
      then ebind (demag_diagnostic remote s) (\<lambda>v.
             Inr (emit [Zlog Demag_header, Zlog (Demag_values v)] s))
      else Inr s)"

definition initialize ::
  "tensor_solver \<Rightarrow> (int \<times> demag_factors) list \<Rightarrow> initialize_args \<Rightarrow> dipole_state
     \<Rightarrow> error + dipole_state" where
  "initialize solver remote a s =
     (if \<not> activated s then Inr s
      else if initialised s then Inr (emit [Zlog Already_initialised] s)
      else ebind (build_phase solver a s) (\<lambda>s1.
           ebind (first_update_phase s1) (\<lambda>s2.
           demag_phase remote s2)))"

subsection \<open>A run of the program around the module\<close>

text \<open>
  What can happen to the state during a run: a call of \<^verbatim>\<open>dipole::initialize\<close>, a call of the
  field evaluator, and the surrounding simulation advancing \<^verbatim>\<open>sim::time\<close> or changing the
  cell moments.
\<close>

datatype operation =
    Initialize initialize_args
  | Calculate_field
  | Set_time nat
  | Set_moments "vec3 list"

definition step ::
  "tensor_solver \<Rightarrow> (int \<times> demag_factors) list \<Rightarrow> operation \<Rightarrow> dipole_state \<Rightarrow> error + dipole_state" where
  "step solver remote ope s =
     (case ope of
        Initialize a \<Rightarrow> initialize solver remote a s
      | Calculate_field \<Rightarrow> calculate_field s
      | Set_time t \<Rightarrow> Inr (s\<lparr> sim_time := t \<rparr>)
      | Set_moments ms \<Rightarrow> Inr (s\<lparr> cell_moments := ms \<rparr>))"

fun run ::
  "tensor_solver \<Rightarrow> (int \<times> demag_factors) list \<Rightarrow> operation list \<Rightarrow> dipole_state \<Rightarrow> error + dipole_state" where
  "run solver remote [] s = Inr s"
| "run solver remote (ope # opes) s =
     (case step solver remote ope s of Inl e \<Rightarrow> Inl e | Inr s' \<Rightarrow> run solver remote opes s')"


subsection \<open>The accumulation as the spec words it\<close>

text \<open>
  The contribution of the local cell \<open>lc\<close> (with cell id \<open>i\<close>) and the cell \<open>j\<close> to one
  component: \<open>factor * (intra[lc][j] + inter[lc][j])\<close> with
  \<open>factor = V_atomic(j) * n_atoms(j) * n_atoms(i)\<close> when both populations are non-zero, and
  nothing otherwise.
\<close>

definition spec_pair_term ::
  "dipole_state \<Rightarrow> real list list \<Rightarrow> real list list \<Rightarrow> nat \<Rightarrow> nat \<Rightarrow> real" where
  "spec_pair_term s intra_c inter_c lc j =
     (let n_i = cells_num_atoms_in_cell s ! nat (cells_ns_cell_id_array s ! lc);
          n_j = cells_num_atoms_in_cell s ! j;
          V_atomic = cells_volume_array s ! j / real_of_int n_j;
          factor = V_atomic * real_of_int n_j * real_of_int n_i
      in if n_i \<noteq> 0 \<and> n_j \<noteq> 0 then factor * (intra_c ! lc ! j + inter_c ! lc ! j) else 0)"

definition spec_demag_total :: "dipole_state \<Rightarrow> real list list \<Rightarrow> real list list \<Rightarrow> real" where
  "spec_demag_total s intra_c inter_c =
     (\<Sum>lc\<leftarrow>[0..<nat (cells_num_local_cells s)]. \<Sum>j\<leftarrow>[0..<nat (cells_num_cells s)].
        spec_pair_term s intra_c inter_c lc j)"

text \<open>One value for each of the six components, from the matching pair of arrays.\<close>

definition per_component ::
  "(real list list \<Rightarrow> real list list \<Rightarrow> real) \<Rightarrow> tensors \<Rightarrow> demag_factors" where
  "per_component f ts =
     \<lparr> Nxx = f (rij_intra_xx ts) (rij_inter_xx ts), Nxy = f (rij_intra_xy ts) (rij_inter_xy ts),
       Nxz = f (rij_intra_xz ts) (rij_inter_xz ts), Nyy = f (rij_intra_yy ts) (rij_inter_yy ts),
       Nyz = f (rij_intra_yz ts) (rij_inter_yz ts), Nzz = f (rij_intra_zz ts) (rij_inter_zz ts) \<rparr>"

definition spec_demag_totals :: "dipole_state \<Rightarrow> demag_factors" where
  "spec_demag_totals s = per_component (spec_demag_total s) (rij s)"

definition demag_plus :: "demag_factors \<Rightarrow> demag_factors \<Rightarrow> demag_factors" where
  "demag_plus a b =
     \<lparr> Nxx = Nxx a + Nxx b, Nxy = Nxy a + Nxy b, Nxz = Nxz a + Nxz b,
       Nyy = Nyy a + Nyy b, Nyz = Nyz a + Nyz b, Nzz = Nzz a + Nzz b \<rparr>"

text \<open>
  The state the diagnostic expects: the twelve arrays have one row for each local cell and
  one column for each cell, the cell ids of the local cells are indices of the population
  array, every cell has a population and a volume, and no population is negative.
\<close>

definition tensor_shape :: "nat \<Rightarrow> nat \<Rightarrow> tensors \<Rightarrow> bool" where
  "tensor_shape L N ts \<longleftrightarrow>
     list_all (\<lambda>m. length m = L \<and> list_all (\<lambda>row. length row = N) m)
       [rij_inter_xx ts, rij_inter_xy ts, rij_inter_xz ts,
        rij_inter_yy ts, rij_inter_yz ts, rij_inter_zz ts,
        rij_intra_xx ts, rij_intra_xy ts, rij_intra_xz ts,
        rij_intra_yy ts, rij_intra_yz ts, rij_intra_zz ts]"

definition well_formed :: "dipole_state \<Rightarrow> bool" where
  "well_formed s \<longleftrightarrow>
     tensor_shape (nat (cells_num_local_cells s)) (nat (cells_num_cells s)) (rij s) \<and>
     nat (cells_num_local_cells s) \<le> length (cells_ns_cell_id_array s) \<and>
     list_all (\<lambda>i. 0 \<le> i \<and> i < int (length (cells_num_atoms_in_cell s)))
       (take (nat (cells_num_local_cells s)) (cells_ns_cell_id_array s)) \<and>
     nat (cells_num_cells s) \<le> length (cells_num_atoms_in_cell s) \<and>
     nat (cells_num_cells s) \<le> length (cells_volume_array s) \<and>
     list_all (\<lambda>n. 0 \<le> n) (cells_num_atoms_in_cell s)"

subsection \<open>An example\<close>

text \<open>Two cells, both local: the first holds two atoms, the second none.\<close>

definition example_args :: initialize_args where
  "example_args =
     \<lparr> arg_cells_num_atoms_in_unit_cell = 2,
       arg_cells_num_cells = 2,
       arg_cells_num_local_cells = 2,
       arg_cells_macro_cell_size = 2,
       arg_cells_local_cell_array = [0, 1],
       arg_cells_num_atoms_in_cell = [2, 0],
       arg_cells_num_atoms_in_cell_global = [2, 0],
       arg_cells_index_atoms_array = [[0, 1], []],
       arg_cells_volume_array = [8, 8],
       arg_cells_pos_and_mom_array = [],
       arg_cells_atom_in_cell_coords_array_x = [[0, 1], []],
       arg_cells_atom_in_cell_coords_array_y = [[0, 0], []],
       arg_cells_atom_in_cell_coords_array_z = [[0, 0], []],
       arg_atom_type_array = [0, 0],
       arg_atom_cell_id_array = [0, 0],
       arg_atom_coords_x = [0, 1],
       arg_atom_coords_y = [0, 0],
       arg_atom_coords_z = [0, 0],
       arg_num_atoms = 2 \<rparr>"

definition example_tensors :: tensors where
  "example_tensors =
     \<lparr> rij_inter_xx = [[0, 3], [3, 0]], rij_inter_xy = [[0, 0], [0, 0]],
       rij_inter_xz = [[0, 0], [0, 0]], rij_inter_yy = [[0, 0], [0, 0]],
       rij_inter_yz = [[0, 0], [0, 0]], rij_inter_zz = [[0, 0], [0, 0]],
       rij_intra_xx = [[2, 0], [0, 0]], rij_intra_xy = [[0, 0], [0, 0]],
       rij_intra_xz = [[0, 0], [0, 0]], rij_intra_yy = [[-1, 0], [0, 0]],
       rij_intra_yz = [[0, 0], [0, 0]], rij_intra_zz = [[-1, 0], [0, 0]] \<rparr>"

definition example_solver :: tensor_solver where
  "example_solver a s = example_tensors"

definition empty_tensors :: tensors where
  "empty_tensors =
     \<lparr> rij_inter_xx = [], rij_inter_xy = [], rij_inter_xz = [], rij_inter_yy = [],
       rij_inter_yz = [], rij_inter_zz = [], rij_intra_xx = [], rij_intra_xy = [],
       rij_intra_xz = [], rij_intra_yy = [], rij_intra_yz = [], rij_intra_zz = [] \<rparr>"

text \<open>The state at the start of a run with the module switched on, at simulated time zero.\<close>

definition example_state :: dipole_state where
  "example_state =
     \<lparr> activated = True, initialised = False, num_atoms = 0, atom_type_array = [],
       atom_cell_id_array = [], cells_num_cells = 0, cells_num_local_cells = 0,
       cells_local_cell_array = [], cells_num_atoms_in_cell = [], cells_volume_array = [],
       cells_pos_and_mom_array = [], rij = empty_tensors, cells_ns_num_cells = 2,
       cells_ns_num_atoms_in_cell = [2, 0], cells_ns_cell_id_array = [0, 1], sim_time = 0,
       cell_moments = [(0, 0, 1), (0, 0, 1)], dipole_field = [], trace = [] \<rparr>"

text \<open>The same state after the build: what \<^verbatim>\<open>dipole::initialize\<close> leaves in the variables the
  diagnostic reads.\<close>

definition example_built :: dipole_state where
  "example_built =
     example_state \<lparr> initialised := True, cells_num_cells := 2, cells_num_local_cells := 2,
       cells_num_atoms_in_cell := [2, 0], cells_volume_array := [8, 8],
       rij := example_tensors \<rparr>"

subsection \<open>The steps of the initialisation\<close>

text \<open>The steps of the first successful call, read off the trace: the calls, the assignment
  to the flag, and the diagnostic by the values it writes.\<close>

datatype init_step =
    Allocates_storage
  | Fills_tensor
  | Barrier
  | Sets_flag
  | Evaluates_field
  | Runs_diagnostic

fun step_of :: "event \<Rightarrow> init_step list" where
  "step_of (Call_allocate_memory l n) = [Allocates_storage]"
| "step_of Call_initialize_tensor_solver = [Fills_tensor]"
| "step_of Call_barrier = [Barrier]"
| "step_of Set_initialised = [Sets_flag]"
| "step_of Call_calculate_field = [Evaluates_field]"
| "step_of (Zlog (Demag_values v)) = [Runs_diagnostic]"
| "step_of e = []"

definition steps :: "event list \<Rightarrow> init_step list" where
  "steps es = concat (map step_of es)"

text \<open>The example after its initialisation, and later in the run.\<close>

definition example_initialised :: dipole_state where
  "example_initialised =
     example_built \<lparr> num_atoms := 2, atom_type_array := [0, 0], atom_cell_id_array := [0, 0],
        cells_local_cell_array := [0, 1], dipole_field := [(0, 0, - 1), (0, 0, 0)],
        trace :=
          [Cout Initialising, Zlog Initialising, Call_allocate_memory 2 2,
           Zlog (Memory_required (192 / 1000000)),
           Cout (Memory_required (192 / 1000000)),
           Zlog (Number_of_local_cells 2), Zlog (Number_of_total_cells 2),
           Zlog Precalculating, Cout Precalculating,
           Call_initialize_tensor_solver, Call_barrier, Cout Done,
           Zlog Precalculation_complete, Set_initialised,
           Call_calculate_field, Call_barrier, Zlog Time_required,
           Zlog Outputting_dipole_matrix, Zlog Demag_header,
           Zlog (Demag_values (Inr \<lparr> Nxx = (32 / 2 - 4 * M_PI / 3) / (- 4 * M_PI), Nxy = 0,
              Nxz = 0, Nyy = (- 16 / 2 - 4 * M_PI / 3) / (- 4 * M_PI), Nyz = 0,
              Nzz = (- 16 / 2 - 4 * M_PI / 3) / (- 4 * M_PI) \<rparr>))] \<rparr>"


section \<open>Basic facts\<close>

lemma ebind_Inr [simp]: "ebind (Inr x) f = f x"
  by (simp add: ebind_def)

lemma ebind_Inl [simp]: "ebind (Inl e) f = Inl e"
  by (simp add: ebind_def)

lemma ebind_eq_Inr: "ebind m f = Inr y \<longleftrightarrow> (\<exists>x. m = Inr x \<and> f x = Inr y)"
  by (cases m) simp_all

lemma ebind_eq_Inl: "ebind m f = Inl e \<longleftrightarrow> m = Inl e \<or> (\<exists>x. m = Inr x \<and> f x = Inl e)"
  by (cases m) simp_all

lemma vec_at_eq_Inr: "vec_at xs i = Inr x \<longleftrightarrow> 0 \<le> i \<and> i < int (length xs) \<and> x = xs ! nat i"
  by (auto simp: vec_at_def)

lemma vec_at_nat: "n < length xs \<Longrightarrow> vec_at xs (int n) = Inr (xs ! n)"
  by (simp add: vec_at_def)

lemma vec_at_not_division: "vec_at xs i \<noteq> Inl Division_by_zero"
  by (simp add: vec_at_def)

text \<open>A loop whose body keeps an invariant and never fails under it returns, and its result
  satisfies the invariant.\<close>

lemma for_loop_rule:
  assumes "P i acc"
    and "\<And>j a. i \<le> j \<Longrightarrow> j < i + k \<Longrightarrow> P j a \<Longrightarrow> \<exists>b. body j a = Inr b \<and> P (Suc j) b"
  shows "\<exists>r. for_loop i k body acc = Inr r \<and> P (i + k) r"
  using assms
proof (induction k arbitrary: i acc)
  case 0
  then show ?case by simp
next
  case (Suc k)
  from Suc.prems(2)[of i acc] Suc.prems(1)
  obtain b where b: "body i acc = Inr b" "P (Suc i) b" by auto
  have "\<exists>r. for_loop (Suc i) k body b = Inr r \<and> P (Suc i + k) r"
  proof (rule Suc.IH[OF b(2)])
    fix j a assume "Suc i \<le> j" "j < Suc i + k" "P j a"
    then show "\<exists>b. body j a = Inr b \<and> P (Suc j) b"
      using Suc.prems(2)[of j a] by simp
  qed
  with b show ?case by simp
qed

text \<open>A loop fails only with a failure of its body.\<close>

lemma for_loop_failure:
  assumes "for_loop i k body acc = Inl e"
  shows "\<exists>j a. i \<le> j \<and> j < i + k \<and> body j a = Inl e"
  using assms
proof (induction k arbitrary: i acc)
  case 0
  then show ?case by simp
next
  case (Suc k)
  show ?case
  proof (cases "body i acc")
    case (Inl e')
    with Suc.prems have "body i acc = Inl e" by simp
    then show ?thesis by (intro exI[of _ i] exI[of _ acc]) simp
  next
    case (Inr b)
    with Suc.prems have "for_loop (Suc i) k body b = Inl e" by simp
    from Suc.IH[OF this] obtain j a where "Suc i \<le> j" "j < Suc i + k" "body j a = Inl e"
      by blast
    then show ?thesis by (intro exI[of _ j] exI[of _ a]) simp
  qed
qed

text \<open>When a loop returns, an invariant that its body keeps holds of the result.\<close>

lemma for_loop_result:
  assumes "for_loop i k body acc = Inr r"
    and "P i acc"
    and "\<And>j a b. i \<le> j \<Longrightarrow> j < i + k \<Longrightarrow> P j a \<Longrightarrow> body j a = Inr b \<Longrightarrow> P (Suc j) b"
  shows "P (i + k) r"
  using assms
proof (induction k arbitrary: i acc)
  case 0
  then show ?case by simp
next
  case (Suc k)
  from Suc.prems(1) obtain b where b: "body i acc = Inr b" "for_loop (Suc i) k body b = Inr r"
    by (auto split: sum.splits)
  have pb: "P (Suc i) b" using Suc.prems(3)[of i acc b] Suc.prems(2) b(1) by simp
  have "P (Suc i + k) r"
  proof (rule Suc.IH[OF b(2) pb])
    fix j a c assume "Suc i \<le> j" "j < Suc i + k" "P j a" "body j a = Inr c"
    then show "P (Suc j) c" using Suc.prems(3)[of j a c] by simp
  qed
  then show ?case by simp
qed

section \<open>The vio module recognises no parameter\<close>

text \<open>
  C10. For every key, word, value, unit and line, \<^verbatim>\<open>vio::match_input_parameter\<close> returns
  false, also when the key is the prefix \<^verbatim>\<open>"vio"\<close>; and for every argument tuple
  \<^verbatim>\<open>vio::match_material_parameter\<close> returns false. The vio module recognises no parameter.
\<close>

theorem vio_matches_nothing:
  "match_input_parameter key word val unit line = False
   \<and> match_input_parameter ''vio'' word val unit line = False
   \<and> match_material_parameter word val unit line super_index sub_index = False"
  by (simp add: match_input_parameter_def match_material_parameter_def)

section \<open>Welford's algorithm in the standard-deviation statistic\<close>



lemma update_element_step:
  assumes "welford_step c M s v (4 * ident + dir) t"
    and "4 * ident + dir < M" and "M \<le> length v" and "c \<noteq> 0"
  shows "\<exists>t'. update_element v ident dir t = Inr t' \<and> welford_step c M s v (Suc (4 * ident + dir)) t'"
proof -
  let ?p = "4 * ident + dir"
  have i: "4 * int ident + int dir = int ?p" by simp
  have ni: "nat (4 * int ident + int dir) = ?p" by linarith
  from assms(1) have len: "length (mean t) = M" "length (residual_sq t) = M"
    and c: "mean_counter t = c" and ne: "num_elements t = num_elements s"
    by (simp_all add: welford_step_def)
  from assms(1,2) have cur: "mean t ! ?p = mean s ! ?p" "residual_sq t ! ?p = residual_sq s ! ?p"
    by (simp_all add: welford_step_def)
  have r1: "vec_at v (int ?p) = Inr (v ! ?p)" using assms(2,3) by (intro vec_at_nat) simp
  have r2: "vec_at (mean t) (int ?p) = Inr (mean t ! ?p)" using assms(2) len by (intro vec_at_nat) simp
  have r3: "vec_at (residual_sq t) (int ?p) = Inr (residual_sq t ! ?p)"
    using assms(2) len by (intro vec_at_nat) simp
  have r4: "fdiv x (mean_counter t) = Inr (x / c)" for x using c assms(4) by (simp add: fdiv_def)
  define t' where "t' = t\<lparr> idx := int ?p, res1 := v ! ?p - mean t ! ?p,
      res2 := v ! ?p - (mean t ! ?p + (v ! ?p - mean t ! ?p) / c),
      mean := (mean t)[?p := mean t ! ?p + (v ! ?p - mean t ! ?p) / c],
      residual_sq := (residual_sq t)[?p := residual_sq t ! ?p +
         (v ! ?p - mean t ! ?p) * (v ! ?p - (mean t ! ?p + (v ! ?p - mean t ! ?p) / c))] \<rparr>"
  have run: "update_element v ident dir t = Inr t'"
    unfolding update_element_def Let_def i r1 r2 r3 r4 ebind_Inr t'_def by (simp add: ni)
  have "welford_step c M s v (Suc ?p) t'"
    unfolding welford_step_def
  proof (intro conjI allI impI)
    show "num_elements t' = num_elements s" by (simp add: t'_def ne)
    show "mean_counter t' = c" by (simp add: t'_def c)
    show "length (mean t') = M" by (simp add: t'_def len)
    show "length (residual_sq t') = M" by (simp add: t'_def len)
  next
    fix i assume iM: "i < M"
    from assms(1) iM have old: "if i < ?p
        then mean t ! i = mean s ! i + (v ! i - mean s ! i) / c \<and>
             residual_sq t ! i = residual_sq s ! i +
               (v ! i - mean s ! i) * (v ! i - (mean s ! i + (v ! i - mean s ! i) / c))
        else mean t ! i = mean s ! i \<and> residual_sq t ! i = residual_sq s ! i"
      by (simp add: welford_step_def)
    show "if i < Suc ?p
        then mean t' ! i = mean s ! i + (v ! i - mean s ! i) / c \<and>
             residual_sq t' ! i = residual_sq s ! i +
               (v ! i - mean s ! i) * (v ! i - (mean s ! i + (v ! i - mean s ! i) / c))
        else mean t' ! i = mean s ! i \<and> residual_sq t' ! i = residual_sq s ! i"
    proof (cases "i = ?p")
      case True
      then show ?thesis using cur len assms(2) by (simp add: t'_def)
    next
      case False
      then have "mean t' ! i = mean t ! i" "residual_sq t' ! i = residual_sq t ! i"
        by (simp_all add: t'_def)
      with old False show ?thesis by (auto simp: less_Suc_eq)
    qed
  qed
  with run show ?thesis by blast
qed

lemma update_inner_loop:
  assumes "welford_step c M s v (4 * ident) t"
    and "4 * ident + 4 \<le> M" and "M \<le> length v" and "c \<noteq> 0"
  shows "\<exists>t'. for_loop 0 4 (update_element v ident) t = Inr t' \<and> welford_step c M s v (4 * Suc ident) t'"
proof -
  have "\<exists>r. for_loop 0 4 (update_element v ident) t = Inr r
          \<and> (\<lambda>j. welford_step c M s v (4 * ident + j)) (0 + 4) r"
  proof (rule for_loop_rule)
    show "welford_step c M s v (4 * ident + 0) t" using assms(1) by simp
  next
    fix j a assume "0 \<le> j" "j < 0 + 4" "welford_step c M s v (4 * ident + j) a"
    then show "\<exists>b. update_element v ident j a = Inr b \<and> welford_step c M s v (4 * ident + Suc j) b"
      using update_element_step[of c M s v ident j a] assms(2,3,4) by simp
  qed
  then show ?thesis by (simp add: ac_simps)
qed

lemma update_outer_loop:
  assumes "welford_step c M s v 0 t" and "M = 4 * n" and "M \<le> length v" and "c \<noteq> 0"
  shows "\<exists>t'. for_loop 0 n (\<lambda>ident. for_loop 0 4 (update_element v ident)) t = Inr t'
           \<and> welford_step c M s v M t'"
proof -
  have "\<exists>r. for_loop 0 n (\<lambda>ident. for_loop 0 4 (update_element v ident)) t = Inr r
          \<and> (\<lambda>k. welford_step c M s v (4 * k)) (0 + n) r"
  proof (rule for_loop_rule)
    show "welford_step c M s v (4 * 0) t" using assms(1) by simp
  next
    fix j a assume "0 \<le> j" "j < 0 + n" "welford_step c M s v (4 * j) a"
    then show "\<exists>b. for_loop 0 4 (update_element v j) a = Inr b \<and> welford_step c M s v (4 * Suc j) b"
      using update_inner_loop[of c M s v j a] assms(2,3,4) by simp
  qed
  then show ?thesis using assms(2) by simp
qed

lemma standard_deviation_update_step:
  assumes "length (mean s) = M" "length (residual_sq s) = M" "M = 4 * nat (num_elements s)"
    and "M \<le> length v" and "mean_counter s + 1 \<noteq> 0"
  shows "\<exists>t. standard_deviation_update v s = Inr t
           \<and> welford_step (mean_counter s + 1) M s v M t"
proof -
  let ?s1 = "s\<lparr> mean_counter := mean_counter s + 1 \<rparr>"
  have start: "welford_step (mean_counter s + 1) M ?s1 v 0 ?s1"
    using assms(1,2) by (simp add: welford_step_def)
  have "\<exists>t'. for_loop 0 (nat (num_elements s)) (\<lambda>ident. for_loop 0 4 (update_element v ident)) ?s1 = Inr t'
           \<and> welford_step (mean_counter s + 1) M ?s1 v M t'"
    by (rule update_outer_loop[OF start assms(3) assms(4) assms(5)])
  then show ?thesis
    by (simp add: standard_deviation_update_def Let_def welford_step_def)
qed




lemma welford_mean_algebra:
  fixes n M x :: real
  assumes "0 \<le> n"
  shows "(n + 1) * (M + (x - M) / (n + 1)) = n * M + x"
proof -
  have "n + 1 \<noteq> 0" using assms by simp
  then show ?thesis by (simp add: field_simps)
qed

lemma welford_residual_aux:
  fixes k d M Q :: real
  assumes "k \<noteq> 0"
  shows "(Q - (k - 1) * M\<^sup>2) + d * ((M + d) - (M + d / k))
         = Q + (M + d)\<^sup>2 - k * (M + d / k)\<^sup>2"
  using assms by (simp add: power2_eq_square field_simps)

lemma welford_residual_algebra:
  fixes n M x Q :: real
  assumes "0 \<le> n"
  shows "(Q - n * M\<^sup>2) + (x - M) * (x - (M + (x - M) / (n + 1)))
         = Q + x\<^sup>2 - (n + 1) * (M + (x - M) / (n + 1))\<^sup>2"
proof -
  have "n + 1 \<noteq> 0" using assms by simp
  from welford_residual_aux[OF this, of Q M "x - M"] show ?thesis by simp
qed

lemma welford_inv_update:
  assumes "welford_inv s ps" and "4 * nat (num_elements s) \<le> length v"
  shows "\<exists>t. standard_deviation_update v s = Inr t \<and> welford_inv t (ps @ [v])
            \<and> num_elements t = num_elements s"
proof -
  let ?M = "4 * nat (num_elements s)"
  let ?n = "real (length ps)"
  from assms(1) have shape: "length (mean s) = ?M" "length (residual_sq s) = ?M"
    and ne: "0 \<le> num_elements s" and c: "mean_counter s = ?n"
    by (simp_all add: welford_inv_def)
  have cz: "mean_counter s + 1 \<noteq> 0" using c by simp
  from standard_deviation_update_step[OF shape refl assms(2) cz]
  obtain t where run: "standard_deviation_update v s = Inr t"
    and st: "welford_step (?n + 1) ?M s v ?M t" using c by auto
  from st have t_ne: "num_elements t = num_elements s" and t_c: "mean_counter t = ?n + 1"
    and t_len: "length (mean t) = ?M" "length (residual_sq t) = ?M"
    by (simp_all add: welford_step_def)
  have "welford_inv t (ps @ [v])"
    unfolding welford_inv_def t_ne
  proof (intro conjI allI impI)
    show "0 \<le> num_elements s" by (rule ne)
    show "length (mean t) = ?M" by (rule t_len)
    show "length (residual_sq t) = ?M" by (rule t_len)
    show "mean_counter t = real (length (ps @ [v]))" using t_c by simp
  next
    fix i assume i: "i < ?M"
    from assms(1) i have old_m: "?n * mean s ! i = (\<Sum>v\<leftarrow>ps. v ! i)"
      and old_r: "residual_sq s ! i = (\<Sum>v\<leftarrow>ps. (v ! i)\<^sup>2) - ?n * (mean s ! i)\<^sup>2"
      by (simp_all add: welford_inv_def)
    from st i have new_m: "mean t ! i = mean s ! i + (v ! i - mean s ! i) / (?n + 1)"
      and new_r: "residual_sq t ! i = residual_sq s ! i +
               (v ! i - mean s ! i) * (v ! i - (mean s ! i + (v ! i - mean s ! i) / (?n + 1)))"
      by (simp_all add: welford_step_def)
    have "(?n + 1) * mean t ! i = ?n * mean s ! i + v ! i"
      unfolding new_m by (rule welford_mean_algebra) simp
    then show "real (length (ps @ [v])) * mean t ! i = (\<Sum>v\<leftarrow>ps @ [v]. v ! i)"
      using old_m by (simp add: algebra_simps)
    have "residual_sq t ! i = (\<Sum>v\<leftarrow>ps. (v ! i)\<^sup>2) + (v ! i)\<^sup>2 - (?n + 1) * (mean t ! i)\<^sup>2"
      unfolding new_r new_m old_r by (rule welford_residual_algebra) simp
    then show "residual_sq t ! i =
        (\<Sum>v\<leftarrow>ps @ [v]. (v ! i)\<^sup>2) - real (length (ps @ [v])) * (mean t ! i)\<^sup>2"
      by (simp add: algebra_simps)
  qed
  with run t_ne show ?thesis by blast
qed

lemma welford_inv_updates:
  assumes "welford_inv s ps" and "\<forall>v \<in> set vs. 4 * nat (num_elements s) \<le> length v"
  shows "\<exists>t. standard_deviation_updates vs s = Inr t \<and> welford_inv t (ps @ vs)
            \<and> num_elements t = num_elements s"
  using assms
proof (induction vs arbitrary: s ps)
  case Nil
  then show ?case by simp
next
  case (Cons v vs)
  from welford_inv_update[OF Cons.prems(1), of v] Cons.prems(2)
  obtain t where t: "standard_deviation_update v s = Inr t" "welford_inv t (ps @ [v])"
    "num_elements t = num_elements s" by auto
  from Cons.IH[OF t(2)] Cons.prems(2) t(3)
  obtain u where "standard_deviation_updates vs t = Inr u" "welford_inv u ((ps @ [v]) @ vs)"
    "num_elements u = num_elements t" by auto
  with t show ?case by simp
qed

lemma sum_squared_deviations:
  fixes f :: "'a \<Rightarrow> real"
  shows "(\<Sum>v\<leftarrow>vs. (f v - m)\<^sup>2)
       = (\<Sum>v\<leftarrow>vs. (f v)\<^sup>2) - 2 * m * (\<Sum>v\<leftarrow>vs. f v) + real (length vs) * m\<^sup>2"
  by (induction vs) (simp_all add: algebra_simps power2_eq_square)

lemma length_resize: "length (resize n v xs) = n"
  by (simp add: resize_def)

lemma resize_zeros:
  assumes "list_all (\<lambda>r. r = 0) xs" and "i < n"
  shows "resize n (0::real) xs ! i = 0"
proof (cases "i < length xs")
  case True
  with assms have "take n xs ! i = 0" by (simp add: list_all_length)
  with True assms(2) show ?thesis by (simp add: resize_def nth_append)
next
  case False
  with assms(2) show ?thesis by (simp add: resize_def nth_append)
qed

lemma standard_deviation_initialize_inv:
  assumes "residuals_clear s0" and "mag_initialized mag_stat"
  shows "\<exists>s1. standard_deviation_initialize mag_stat s0 = Inr s1 \<and> welford_inv s1 []
           \<and> num_elements s1 = int (length (magnetization mag_stat) div 4)"
proof -
  let ?n = "int (length (magnetization mag_stat) div 4)"
  let ?s1 = "s0\<lparr> num_elements := ?n,
                   residual_sq := resize (nat (4 * ?n)) 0 (residual_sq s0),
                   mean := resize (nat (4 * ?n)) 0 (mean s0),
                   mean_counter := 0,
                   initialized := True \<rparr>"
  have run: "standard_deviation_initialize mag_stat s0 = Inr ?s1"
    using assms(2) by (simp add: standard_deviation_initialize_def Let_def)
  have m: "nat (4 * ?n) = 4 * nat ?n" by simp
  have "residual_sq ?s1 ! i = 0" if "i < 4 * nat ?n" for i
    using resize_zeros[of "residual_sq s0" i "nat (4 * ?n)"] assms(1) that
    by (simp add: residuals_clear_def)
  then have "welford_inv ?s1 []"
    by (simp add: welford_inv_def length_resize)
  with run show ?thesis by simp
qed

text \<open>
  What holds of the statistic, in exact arithmetic: take a statistic whose residuals are
  clear and an initialised magnetization statistic; \<^verbatim>\<open>initialize\<close> returns, and after it \<open>n\<close>
  calls of \<^verbatim>\<open>update\<close> with vectors \<open>v\<^sub>1 .. v\<^sub>n\<close>, each of length at least \<open>4 * num_elements\<close>,
  all return; then \<open>mean_counter = n\<close> and, for every index \<open>idx < 4 * num_elements\<close>,
  \<open>mean[idx]\<close> is the arithmetic mean of the \<open>v\<^sub>k[idx]\<close> and \<open>residual_sq[idx]\<close> is the sum of
  the \<open>(v\<^sub>k[idx] - mean[idx])\<^sup>2\<close>.
\<close>

theorem welford_invariant:
  assumes "residuals_clear s0" and "mag_initialized mag_stat"
    and "\<forall>v \<in> set vs. 4 * (length (magnetization mag_stat) div 4) \<le> length v"
  shows "\<exists>s1 sn.
     standard_deviation_initialize mag_stat s0 = Inr s1 \<and>
     standard_deviation_updates vs s1 = Inr sn \<and>
     num_elements sn = num_elements s1 \<and>
     mean_counter sn = real (length vs) \<and>
     (\<forall>i < 4 * nat (num_elements s1).
        (vs \<noteq> [] \<longrightarrow> mean sn ! i = (\<Sum>v\<leftarrow>vs. v ! i) / real (length vs)) \<and>
        residual_sq sn ! i = (\<Sum>v\<leftarrow>vs. (v ! i - mean sn ! i)\<^sup>2))"
proof -
  from standard_deviation_initialize_inv[OF assms(1,2)]
  obtain s1 where s1: "standard_deviation_initialize mag_stat s0 = Inr s1" "welford_inv s1 []"
    "num_elements s1 = int (length (magnetization mag_stat) div 4)" by blast
  have len: "\<forall>v \<in> set vs. 4 * nat (num_elements s1) \<le> length v"
    using assms(3) s1(3) by simp
  from welford_inv_updates[OF s1(2) len]
  obtain sn where sn: "standard_deviation_updates vs s1 = Inr sn" "welford_inv sn vs"
    "num_elements sn = num_elements s1" by auto
  have cnt: "mean_counter sn = real (length vs)" using sn(2) by (simp add: welford_inv_def)
  have each: "(vs \<noteq> [] \<longrightarrow> mean sn ! i = (\<Sum>v\<leftarrow>vs. v ! i) / real (length vs)) \<and>
        residual_sq sn ! i = (\<Sum>v\<leftarrow>vs. (v ! i - mean sn ! i)\<^sup>2)"
    if i: "i < 4 * nat (num_elements s1)" for i
  proof -
    from sn(2) sn(3) i have m: "real (length vs) * mean sn ! i = (\<Sum>v\<leftarrow>vs. v ! i)"
      and r: "residual_sq sn ! i = (\<Sum>v\<leftarrow>vs. (v ! i)\<^sup>2) - real (length vs) * (mean sn ! i)\<^sup>2"
      by (simp_all add: welford_inv_def)
    have a: "vs \<noteq> [] \<longrightarrow> mean sn ! i = (\<Sum>v\<leftarrow>vs. v ! i) / real (length vs)"
      using m by (auto simp: field_simps)
    have "(\<Sum>v\<leftarrow>vs. (v ! i - mean sn ! i)\<^sup>2)
        = (\<Sum>v\<leftarrow>vs. (v ! i)\<^sup>2) - 2 * mean sn ! i * (\<Sum>v\<leftarrow>vs. v ! i)
          + real (length vs) * (mean sn ! i)\<^sup>2"
      by (rule sum_squared_deviations)
    also have "\<dots> = (\<Sum>v\<leftarrow>vs. (v ! i)\<^sup>2) - real (length vs) * (mean sn ! i)\<^sup>2"
      unfolding m[symmetric] by (simp add: algebra_simps power2_eq_square)
    finally have c: "residual_sq sn ! i = (\<Sum>v\<leftarrow>vs. (v ! i - mean sn ! i)\<^sup>2)"
      using r by simp
    from a c show ?thesis by blast
  qed
  from s1(1) sn(1) sn(3) cnt each show ?thesis by blast
qed

text \<open>An instance: one element (four directions) and two updates.\<close>

theorem welford_invariant_witness:
  "residuals_clear \<lparr> initialized = False, num_elements = 0, idx = 0, res1 = 0, res2 = 0,
       mean_counter = 0, residual_sq = [], mean = [] \<rparr>
   \<and> mag_initialized \<lparr> mag_initialized = True, magnetization = [1, 2, 3, 4] \<rparr>
   \<and> list_all (\<lambda>v. 4 * (length (magnetization
          \<lparr> mag_initialized = True, magnetization = [1, 2, 3, 4] \<rparr>) div 4) \<le> length v)
         [[1, 2, 3, 4], [3, 2, 5, 0 :: real]]
   \<and> (\<exists>s1 sn.
         standard_deviation_initialize \<lparr> mag_initialized = True, magnetization = [1, 2, 3, 4] \<rparr>
           \<lparr> initialized = False, num_elements = 0, idx = 0, res1 = 0, res2 = 0,
             mean_counter = 0, residual_sq = [], mean = [] \<rparr> = Inr s1
         \<and> standard_deviation_updates [[1, 2, 3, 4], [3, 2, 5, 0]] s1 = Inr sn
         \<and> mean_counter sn = 2 \<and> mean sn ! 0 = 2 \<and> residual_sq sn ! 0 = 2)"
proof -
  let ?s0 = "\<lparr> initialized = False, num_elements = 0, idx = 0, res1 = 0, res2 = 0,
       mean_counter = 0, residual_sq = [], mean = [] \<rparr>"
  let ?mag = "\<lparr> mag_initialized = True, magnetization = [1, 2, 3, 4] \<rparr>"
  let ?vs = "[[1, 2, 3, 4], [3, 2, 5, 0 :: real]]"
  have h1: "residuals_clear ?s0" by (simp add: residuals_clear_def)
  have h2: "mag_initialized ?mag" by simp
  have h3: "\<forall>v \<in> set ?vs. 4 * (length (magnetization ?mag) div 4) \<le> length v" by simp
  from welford_invariant[OF h1 h2 h3]
  obtain s1 sn where init: "standard_deviation_initialize ?mag ?s0 = Inr s1"
    and upd: "standard_deviation_updates ?vs s1 = Inr sn"
    and cnt: "mean_counter sn = real (length ?vs)"
    and each: "\<forall>i < 4 * nat (num_elements s1).
        (?vs \<noteq> [] \<longrightarrow> mean sn ! i = (\<Sum>v\<leftarrow>?vs. v ! i) / real (length ?vs)) \<and>
        residual_sq sn ! i = (\<Sum>v\<leftarrow>?vs. (v ! i - mean sn ! i)\<^sup>2)"
    by blast
  from init have ne: "num_elements s1 = 1"
    by (auto simp: standard_deviation_initialize_def Let_def)
  from ne have "0 < 4 * nat (num_elements s1)" by simp
  from each[rule_format, OF this]
  have m0: "mean sn ! 0 = (\<Sum>v\<leftarrow>?vs. v ! 0) / real (length ?vs)"
    and r0: "residual_sq sn ! 0 = (\<Sum>v\<leftarrow>?vs. (v ! 0 - mean sn ! 0)\<^sup>2)" by simp_all
  from m0 have m: "mean sn ! 0 = 2" by simp
  from r0 have r: "residual_sq sn ! 0 = 2" unfolding m by simp
  from h1 h2 h3 init upd cnt m r show ?thesis by (intro conjI exI[of _ s1] exI[of _ sn]) simp_all
qed
text \<open>
  C9. The claim is that after \<^verbatim>\<open>initialize\<close> and \<open>n\<close> calls of \<^verbatim>\<open>update\<close> the mean is the
  arithmetic mean, the residual the sum of the squared deviations and the counter \<open>n\<close>. It
  fails when \<^verbatim>\<open>initialize\<close> is called on a statistic that has been used: the vectors have
  their size already, \<^verbatim>\<open>resize\<close> keeps their elements, and only the counter is reset. For a
  statistic of one element, initialised, updated with 1 and with 3 (in the first direction),
  initialised again and updated with 5: after the second \<^verbatim>\<open>initialize\<close> the mean is 2 and not
  0, and after the update the counter is 1, the mean is 5 and the residual is 2, where the
  sum of the squared deviations of the one value from its mean is 0.
\<close>

theorem reinitialised_statistic_keeps_residuals:
  "standard_deviation_initialize \<lparr> mag_initialized = True, magnetization = [0, 0, 0, 0] \<rparr>
      \<lparr> initialized = False, num_elements = 0, idx = 0, res1 = 0, res2 = 0,
        mean_counter = 0, residual_sq = [], mean = [] \<rparr>
     = Inr \<lparr> initialized = True, num_elements = 1, idx = 0, res1 = 0, res2 = 0,
        mean_counter = 0, residual_sq = [0, 0, 0, 0], mean = [0, 0, 0, 0] \<rparr>
   \<and> standard_deviation_updates [[1, 0, 0, 0], [3, 0, 0, 0]]
      \<lparr> initialized = True, num_elements = 1, idx = 0, res1 = 0, res2 = 0,
        mean_counter = 0, residual_sq = [0, 0, 0, 0], mean = [0, 0, 0, 0] \<rparr>
     = Inr \<lparr> initialized = True, num_elements = 1, idx = 3, res1 = 0, res2 = 0,
        mean_counter = 2, residual_sq = [2, 0, 0, 0], mean = [2, 0, 0, 0] \<rparr>
   \<and> standard_deviation_initialize \<lparr> mag_initialized = True, magnetization = [0, 0, 0, 0] \<rparr>
      \<lparr> initialized = True, num_elements = 1, idx = 3, res1 = 0, res2 = 0,
        mean_counter = 2, residual_sq = [2, 0, 0, 0], mean = [2, 0, 0, 0] \<rparr>
     = Inr \<lparr> initialized = True, num_elements = 1, idx = 3, res1 = 0, res2 = 0,
        mean_counter = 0, residual_sq = [2, 0, 0, 0], mean = [2, 0, 0, 0] \<rparr>
   \<and> standard_deviation_updates [[5, 0, 0, 0]]
      \<lparr> initialized = True, num_elements = 1, idx = 3, res1 = 0, res2 = 0,
        mean_counter = 0, residual_sq = [2, 0, 0, 0], mean = [2, 0, 0, 0] \<rparr>
     = Inr \<lparr> initialized = True, num_elements = 1, idx = 3, res1 = 0, res2 = 0,
        mean_counter = 1, residual_sq = [2, 0, 0, 0], mean = [5, 0, 0, 0] \<rparr>
   \<and> (\<Sum>v\<leftarrow>[[5, 0, 0, 0 :: real]]. (v ! 0 - [5, 0, 0, 0 :: real] ! 0)\<^sup>2) = 0
   \<and> [2, 0, 0, 0 :: real] ! 0 \<noteq> 0"
  by code_simp

section \<open>The phases of \<^verbatim>\<open>dipole::initialize\<close>\<close>

lemma calculate_field_result:
  assumes "calculate_field s = Inr s'"
  shows "\<exists>fs. s' = s\<lparr> dipole_field := fs \<rparr>"
proof (cases "\<not> activated s \<or> \<not> initialised s")
  case True
  with assms have "s' = s" by (simp add: calculate_field_def)
  then have "s' = s\<lparr> dipole_field := dipole_field s \<rparr>" by simp
  then show ?thesis by blast
next
  case False
  with assms show ?thesis by (auto simp: calculate_field_def ebind_eq_Inr)
qed

lemma build_phase_result:
  assumes "build_phase solver a s = Inr s'"
  shows "\<exists>mb. trace s' = trace s @
           [Cout Initialising, Zlog Initialising,
            Call_allocate_memory (arg_cells_num_local_cells a) (arg_cells_num_cells a),
            Zlog (Memory_required mb), Cout (Memory_required mb),
            Zlog (Number_of_local_cells (arg_cells_num_local_cells a)),
            Zlog (Number_of_total_cells (arg_cells_num_cells a)),
            Zlog Precalculating, Cout Precalculating,
            Call_initialize_tensor_solver, Call_barrier, Cout Done, Zlog Precalculation_complete]
         \<and> memory_required (arg_cells_num_cells a) (arg_cells_num_local_cells a) = Inr mb
         \<and> activated s' = activated s \<and> initialised s' = initialised s
         \<and> sim_time s' = sim_time s"
  using assms
  by (auto simp: build_phase_def Let_def ebind_eq_Inr allocate_memory_def emit_def
      split: if_splits)

lemma first_update_phase_result:
  assumes "first_update_phase s = Inr s'"
  shows "trace s' = trace s @
           [Set_initialised, Call_calculate_field, Call_barrier, Zlog Time_required,
            Zlog Outputting_dipole_matrix]
         \<and> activated s' = activated s \<and> initialised s' \<and> sim_time s' = sim_time s"
proof -
  from assms obtain s2 where
    cf: "calculate_field (emit [Call_calculate_field]
           ((emit [Set_initialised] s)\<lparr> initialised := True \<rparr>)) = Inr s2"
    and s': "s' = emit [Call_barrier, Zlog Time_required, Zlog Outputting_dipole_matrix] s2"
    by (auto simp: first_update_phase_def Let_def ebind_eq_Inr)
  from calculate_field_result[OF cf] obtain fs where
    "s2 = (emit [Call_calculate_field]
           ((emit [Set_initialised] s)\<lparr> initialised := True \<rparr>))\<lparr> dipole_field := fs \<rparr>" ..
  with s' show ?thesis by (simp add: emit_def)
qed

lemma demag_phase_result:
  assumes "demag_phase remote s = Inr s'"
  shows "activated s' = activated s \<and> initialised s' = initialised s \<and> sim_time s' = sim_time s
         \<and> (if sim_time s = 0
            then \<exists>v. demag_diagnostic remote s = Inr v
                   \<and> trace s' = trace s @ [Zlog Demag_header, Zlog (Demag_values v)]
            else trace s' = trace s)"
  using assms
  by (auto simp: demag_phase_def ebind_eq_Inr emit_def split: if_splits)

lemma steps_append: "steps (xs @ ys) = steps xs @ steps ys"
  by (simp add: steps_def)


lemma initialize_first_call:
  assumes "activated s" and "\<not> initialised s" and "initialize solver remote a s = Inr s'"
  shows "\<exists>mb tail. trace s' = trace s @
           [Cout Initialising, Zlog Initialising,
            Call_allocate_memory (arg_cells_num_local_cells a) (arg_cells_num_cells a),
            Zlog (Memory_required mb), Cout (Memory_required mb),
            Zlog (Number_of_local_cells (arg_cells_num_local_cells a)),
            Zlog (Number_of_total_cells (arg_cells_num_cells a)),
            Zlog Precalculating, Cout Precalculating,
            Call_initialize_tensor_solver, Call_barrier, Cout Done, Zlog Precalculation_complete,
            Set_initialised, Call_calculate_field, Call_barrier, Zlog Time_required,
            Zlog Outputting_dipole_matrix] @ tail
         \<and> memory_required (arg_cells_num_cells a) (arg_cells_num_local_cells a) = Inr mb
         \<and> (if sim_time s = 0 then \<exists>v. tail = [Zlog Demag_header, Zlog (Demag_values v)]
            else tail = [])
         \<and> activated s' \<and> initialised s' \<and> sim_time s' = sim_time s"
proof -
  from assms obtain s1 s2 where b: "build_phase solver a s = Inr s1"
    and f: "first_update_phase s1 = Inr s2" and d: "demag_phase remote s2 = Inr s'"
    by (auto simp: initialize_def ebind_eq_Inr)
  from build_phase_result[OF b] obtain mb where
    t1: "trace s1 = trace s @
           [Cout Initialising, Zlog Initialising,
            Call_allocate_memory (arg_cells_num_local_cells a) (arg_cells_num_cells a),
            Zlog (Memory_required mb), Cout (Memory_required mb),
            Zlog (Number_of_local_cells (arg_cells_num_local_cells a)),
            Zlog (Number_of_total_cells (arg_cells_num_cells a)),
            Zlog Precalculating, Cout Precalculating,
            Call_initialize_tensor_solver, Call_barrier, Cout Done, Zlog Precalculation_complete]"
    and mb: "memory_required (arg_cells_num_cells a) (arg_cells_num_local_cells a) = Inr mb"
    and k1: "activated s1 = activated s" "sim_time s1 = sim_time s" by blast
  from first_update_phase_result[OF f] have
    t2: "trace s2 = trace s1 @
           [Set_initialised, Call_calculate_field, Call_barrier, Zlog Time_required,
            Zlog Outputting_dipole_matrix]"
    and k2: "activated s2 = activated s1" "initialised s2" "sim_time s2 = sim_time s1" by simp_all
  from demag_phase_result[OF d] have
    k3: "activated s' = activated s2" "initialised s' = initialised s2" "sim_time s' = sim_time s2"
    and t3: "if sim_time s2 = 0
            then \<exists>v. demag_diagnostic remote s2 = Inr v
                   \<and> trace s' = trace s2 @ [Zlog Demag_header, Zlog (Demag_values v)]
            else trace s' = trace s2" by simp_all
  have time: "sim_time s2 = sim_time s" using k1 k2 by simp
  have flags: "activated s'" "initialised s'" "sim_time s' = sim_time s"
    using k1 k2 k3 assms(1) by simp_all
  show ?thesis
  proof (cases "sim_time s = 0")
    case True
    with t3 time obtain v where "trace s' = trace s2 @ [Zlog Demag_header, Zlog (Demag_values v)]"
      by auto
    with t1 t2 mb flags True show ?thesis
      by (intro exI[of _ mb] exI[of _ "[Zlog Demag_header, Zlog (Demag_values v)]"]) simp
  next
    case False
    with t3 time have "trace s' = trace s2" by simp
    with t1 t2 mb flags False show ?thesis
      by (intro exI[of _ mb] exI[of _ "[]"]) simp
  qed
qed

lemma initialize_other_calls:
  assumes "\<not> (activated s \<and> \<not> initialised s)" and "initialize solver remote a s = Inr s'"
  shows "s' = (if activated s then emit [Zlog Already_initialised] s else s)"
  using assms by (auto simp: initialize_def)

lemma allocate_memory_keeps:
  assumes "allocate_memory l n s = Inr s'"
  shows "sim_time s' = sim_time s \<and> trace s' = trace s \<and> activated s' = activated s
       \<and> initialised s' = initialised s"
  using assms by (auto simp: allocate_memory_def Let_def split: if_splits)

lemma calculate_field_keeps:
  assumes "calculate_field s = Inr s'"
  shows "sim_time s' = sim_time s \<and> trace s' = trace s \<and> activated s' = activated s
       \<and> initialised s' = initialised s"
  using calculate_field_result[OF assms] by auto

text \<open>The first successful call, statement by statement: it returns exactly when the allocation,
  the memory estimate, the field evaluation and, at time zero, the diagnostic return, and the
  state it returns is built in the order of the source.\<close>

lemma initialize_unfolded:
  assumes "activated s" and "\<not> initialised s"
  shows "initialize solver remote a s = Inr s' \<longleftrightarrow>
    (\<exists>s_alloc mb s_pre s_built s_flag s_field s_upd.
       allocate_memory (arg_cells_num_local_cells a) (arg_cells_num_cells a)
         (emit [Cout Initialising, Zlog Initialising,
                Call_allocate_memory (arg_cells_num_local_cells a) (arg_cells_num_cells a)] s)
         = Inr s_alloc
     \<and> memory_required (arg_cells_num_cells a) (arg_cells_num_local_cells a) = Inr mb
     \<and> s_pre = emit [Zlog (Memory_required mb), Cout (Memory_required mb),
                      Zlog (Number_of_local_cells (arg_cells_num_local_cells a)),
                      Zlog (Number_of_total_cells (arg_cells_num_cells a)),
                      Zlog Precalculating, Cout Precalculating]
                 (s_alloc\<lparr> num_atoms := arg_num_atoms a,
                   atom_type_array := arg_atom_type_array a,
                   atom_cell_id_array := arg_atom_cell_id_array a,
                   cells_num_cells := arg_cells_num_cells a,
                   cells_num_local_cells := arg_cells_num_local_cells a,
                   cells_local_cell_array := arg_cells_local_cell_array a,
                   cells_num_atoms_in_cell := arg_cells_num_atoms_in_cell a,
                   cells_volume_array := arg_cells_volume_array a,
                   cells_pos_and_mom_array := arg_cells_pos_and_mom_array a \<rparr>)
     \<and> s_built = emit [Call_barrier, Cout Done, Zlog Precalculation_complete]
                 ((emit [Call_initialize_tensor_solver] s_pre)
                    \<lparr> rij := solver a s_pre,
                      cells_ns_num_cells := arg_cells_num_cells a,
                      cells_ns_num_atoms_in_cell := arg_cells_num_atoms_in_cell a \<rparr>)
     \<and> s_flag = emit [Set_initialised, Call_calculate_field] (s_built\<lparr> initialised := True \<rparr>)
     \<and> calculate_field s_flag = Inr s_field
     \<and> s_upd = emit [Call_barrier, Zlog Time_required, Zlog Outputting_dipole_matrix] s_field
     \<and> (if sim_time s = 0
         then \<exists>v. demag_diagnostic remote s_upd = Inr v
                \<and> s' = emit [Zlog Demag_header, Zlog (Demag_values v)] s_upd
         else s' = s_upd))"
  (is "?lhs \<longleftrightarrow> ?rhs")
proof
  assume ?lhs
  with assms obtain s1 s2 where b: "build_phase solver a s = Inr s1"
    and f: "first_update_phase s1 = Inr s2" and d: "demag_phase remote s2 = Inr s'"
    by (auto simp: initialize_def ebind_eq_Inr)
  from b obtain s_alloc mb where al: "allocate_memory (arg_cells_num_local_cells a) (arg_cells_num_cells a)
         (emit [Cout Initialising, Zlog Initialising,
                Call_allocate_memory (arg_cells_num_local_cells a) (arg_cells_num_cells a)] s)
         = Inr s_alloc"
    and mb: "memory_required (arg_cells_num_cells a) (arg_cells_num_local_cells a) = Inr mb"
    and s1: "s1 = emit [Call_barrier, Cout Done, Zlog Precalculation_complete]
                 ((emit [Call_initialize_tensor_solver]
                    (emit [Zlog (Memory_required mb), Cout (Memory_required mb),
                      Zlog (Number_of_local_cells (arg_cells_num_local_cells a)),
                      Zlog (Number_of_total_cells (arg_cells_num_cells a)),
                      Zlog Precalculating, Cout Precalculating]
                 (s_alloc\<lparr> num_atoms := arg_num_atoms a,
                   atom_type_array := arg_atom_type_array a,
                   atom_cell_id_array := arg_atom_cell_id_array a,
                   cells_num_cells := arg_cells_num_cells a,
                   cells_num_local_cells := arg_cells_num_local_cells a,
                   cells_local_cell_array := arg_cells_local_cell_array a,
                   cells_num_atoms_in_cell := arg_cells_num_atoms_in_cell a,
                   cells_volume_array := arg_cells_volume_array a,
                   cells_pos_and_mom_array := arg_cells_pos_and_mom_array a \<rparr>)))
                    \<lparr> rij := solver a (emit [Zlog (Memory_required mb), Cout (Memory_required mb),
                      Zlog (Number_of_local_cells (arg_cells_num_local_cells a)),
                      Zlog (Number_of_total_cells (arg_cells_num_cells a)),
                      Zlog Precalculating, Cout Precalculating]
                 (s_alloc\<lparr> num_atoms := arg_num_atoms a,
                   atom_type_array := arg_atom_type_array a,
                   atom_cell_id_array := arg_atom_cell_id_array a,
                   cells_num_cells := arg_cells_num_cells a,
                   cells_num_local_cells := arg_cells_num_local_cells a,
                   cells_local_cell_array := arg_cells_local_cell_array a,
                   cells_num_atoms_in_cell := arg_cells_num_atoms_in_cell a,
                   cells_volume_array := arg_cells_volume_array a,
                   cells_pos_and_mom_array := arg_cells_pos_and_mom_array a \<rparr>)),
                      cells_ns_num_cells := arg_cells_num_cells a,
                      cells_ns_num_atoms_in_cell := arg_cells_num_atoms_in_cell a \<rparr>)"
    by (auto simp: build_phase_def Let_def ebind_eq_Inr emit_def)
  from f obtain s_field where
    cf: "calculate_field (emit [Set_initialised, Call_calculate_field] (s1\<lparr> initialised := True \<rparr>))
           = Inr s_field"
    and s2: "s2 = emit [Call_barrier, Zlog Time_required, Zlog Outputting_dipole_matrix] s_field"
    by (auto simp: first_update_phase_def Let_def ebind_eq_Inr emit_def)
  have t: "sim_time s2 = sim_time s"
    using allocate_memory_keeps[OF al] calculate_field_keeps[OF cf] s1 s2
    by (simp add: emit_def)
  from d t have "if sim_time s = 0
         then \<exists>v. demag_diagnostic remote s2 = Inr v
                \<and> s' = emit [Zlog Demag_header, Zlog (Demag_values v)] s2
         else s' = s2"
    by (auto simp: demag_phase_def ebind_eq_Inr split: if_splits)
  with al mb s1 cf s2 show ?rhs by blast
next
  assume ?rhs
  then obtain s_alloc mb s_pre s_built s_flag s_field s_upd where
    al: "allocate_memory (arg_cells_num_local_cells a) (arg_cells_num_cells a)
         (emit [Cout Initialising, Zlog Initialising,
                Call_allocate_memory (arg_cells_num_local_cells a) (arg_cells_num_cells a)] s)
         = Inr s_alloc"
    and mb: "memory_required (arg_cells_num_cells a) (arg_cells_num_local_cells a) = Inr mb"
    and pre: "s_pre = emit [Zlog (Memory_required mb), Cout (Memory_required mb),
                      Zlog (Number_of_local_cells (arg_cells_num_local_cells a)),
                      Zlog (Number_of_total_cells (arg_cells_num_cells a)),
                      Zlog Precalculating, Cout Precalculating]
                 (s_alloc\<lparr> num_atoms := arg_num_atoms a,
                   atom_type_array := arg_atom_type_array a,
                   atom_cell_id_array := arg_atom_cell_id_array a,
                   cells_num_cells := arg_cells_num_cells a,
                   cells_num_local_cells := arg_cells_num_local_cells a,
                   cells_local_cell_array := arg_cells_local_cell_array a,
                   cells_num_atoms_in_cell := arg_cells_num_atoms_in_cell a,
                   cells_volume_array := arg_cells_volume_array a,
                   cells_pos_and_mom_array := arg_cells_pos_and_mom_array a \<rparr>)"
    and built: "s_built = emit [Call_barrier, Cout Done, Zlog Precalculation_complete]
                 ((emit [Call_initialize_tensor_solver] s_pre)
                    \<lparr> rij := solver a s_pre,
                      cells_ns_num_cells := arg_cells_num_cells a,
                      cells_ns_num_atoms_in_cell := arg_cells_num_atoms_in_cell a \<rparr>)"
    and flag: "s_flag = emit [Set_initialised, Call_calculate_field] (s_built\<lparr> initialised := True \<rparr>)"
    and cf: "calculate_field s_flag = Inr s_field"
    and upd: "s_upd = emit [Call_barrier, Zlog Time_required, Zlog Outputting_dipole_matrix] s_field"
    and fin: "if sim_time s = 0
         then \<exists>v. demag_diagnostic remote s_upd = Inr v
                \<and> s' = emit [Zlog Demag_header, Zlog (Demag_values v)] s_upd
         else s' = s_upd"
    by blast
  have b: "build_phase solver a s = Inr s_built"
    using al mb unfolding built pre by (simp add: build_phase_def Let_def emit_def)
  have f: "first_update_phase s_built = Inr s_upd"
    using cf unfolding upd flag by (simp add: first_update_phase_def Let_def emit_def)
  have t: "sim_time s_upd = sim_time s"
    using allocate_memory_keeps[OF al] calculate_field_keeps[OF cf] pre built flag upd
    by (simp add: emit_def)
  have d: "demag_phase remote s_upd = Inr s'"
    using fin t by (auto simp: demag_phase_def split: if_splits)
  from assms b f d show ?lhs by (simp add: initialize_def)
qed

lemma example_initialize:
  "initialize example_solver [] example_args example_state = Inr example_initialised"
  by code_simp

section \<open>Runs of the module\<close>

lemma memory_required_is_half:
  assumes "int_ok (num_local_cells * 6)"
  shows "memory_required num_cells num_local_cells
           = Inr (real_of_int (documented_storage_bytes num_cells num_local_cells) / 2 / 1000000)"
  using assms by (simp add: memory_required_def documented_storage_bytes_def)










text \<open>No operation of a run switches the module off: once initialised, it is switched on.\<close>

lemma step_keeps_activation:
  assumes "initialised s \<longrightarrow> activated s" and "step solver remote ope s = Inr s'"
  shows "initialised s' \<longrightarrow> activated s'"
proof (cases ope)
  case (Initialize a)
  with assms(2) have i: "initialize solver remote a s = Inr s'" by (simp add: step_def)
  show ?thesis
  proof (cases "activated s \<and> \<not> initialised s")
    case True
    with initialize_first_call[OF _ _ i] show ?thesis by blast
  next
    case False
    from initialize_other_calls[OF False i] assms(1) show ?thesis
      by (auto simp: emit_def split: if_splits)
  qed
next
  case Calculate_field
  with assms(2) have "calculate_field s = Inr s'" by (simp add: step_def)
  from calculate_field_result[OF this] assms(1) show ?thesis by auto
next
  case (Set_time t)
  with assms show ?thesis by (auto simp: step_def)
next
  case (Set_moments ms)
  with assms show ?thesis by (auto simp: step_def)
qed

lemma run_keeps_activation:
  assumes "initialised s \<longrightarrow> activated s" and "run solver remote opes s = Inr s'"
  shows "initialised s' \<longrightarrow> activated s'"
  using assms
proof (induction opes arbitrary: s)
  case Nil
  then show ?case by simp
next
  case (Cons ope opes)
  from Cons.prems(2) obtain s1 where s1: "step solver remote ope s = Inr s1"
    "run solver remote opes s1 = Inr s'" by (auto split: sum.splits)
  from Cons.IH[OF step_keeps_activation[OF Cons.prems(1) s1(1)] s1(2)] show ?case .
qed

lemma example_first_run:
  "run example_solver [] [Initialize example_args] example_state = Inr example_initialised"
  by (simp add: step_def example_initialize)

section \<open>The normalisation of the demagnetizing tensor\<close>

lemma M_PI_pos: "0 < M_PI"
  by (simp add: M_PI_def)

lemma int_add_eq_Inr: "int_add a b = Inr c \<Longrightarrow> c = a + b"
  by (auto simp: int_add_def split: if_splits)

lemma count_magnetic_atoms_sum:
  assumes "count_magnetic_atoms s = Inr n"
  shows "n = (\<Sum>lc\<leftarrow>[0..<nat (cells_num_local_cells s)].
                cells_num_atoms_in_cell s ! nat (cells_ns_cell_id_array s ! lc))"
proof -
  let ?f = "\<lambda>lc. cells_num_atoms_in_cell s ! nat (cells_ns_cell_id_array s ! lc)"
  have "(\<lambda>k acc. acc = (\<Sum>lc\<leftarrow>[0..<k]. ?f lc)) (0 + nat (cells_num_local_cells s)) n"
  proof (rule for_loop_result[OF assms[unfolded count_magnetic_atoms_def]])
    show "(0::int) = (\<Sum>lc\<leftarrow>[0..<0]. ?f lc)" by simp
  next
    fix j a b
    assume inv: "a = (\<Sum>lc\<leftarrow>[0..<j]. ?f lc)"
      and body: "ebind (vec_at (cells_ns_cell_id_array s) (int j)) (\<lambda>i.
                 ebind (vec_at (cells_num_atoms_in_cell s) i) (\<lambda>n. int_add a n)) = Inr b"
    from body obtain i m where i: "vec_at (cells_ns_cell_id_array s) (int j) = Inr i"
      and m: "vec_at (cells_num_atoms_in_cell s) i = Inr m" and b: "int_add a m = Inr b"
      by (auto simp: ebind_eq_Inr)
    from i have "i = cells_ns_cell_id_array s ! j" by (simp add: vec_at_eq_Inr)
    with m have "m = ?f j" by (simp add: vec_at_eq_Inr)
    with int_add_eq_Inr[OF b] inv show "b = (\<Sum>lc\<leftarrow>[0..<Suc j]. ?f lc)" by simp
  qed
  then show ?thesis by simp
qed

lemma demag_normalise_eq_Inr:
  assumes "demag_normalise T n = Inr R"
  shows "n \<noteq> 0
       \<and> Nxx R = (Nxx T / real_of_int n - 4 * M_PI / 3) / (- 4 * M_PI)
       \<and> Nyy R = (Nyy T / real_of_int n - 4 * M_PI / 3) / (- 4 * M_PI)
       \<and> Nzz R = (Nzz T / real_of_int n - 4 * M_PI / 3) / (- 4 * M_PI)
       \<and> Nxy R = Nxy T / real_of_int n / (- 4 * M_PI)
       \<and> Nxz R = Nxz T / real_of_int n / (- 4 * M_PI)
       \<and> Nyz R = Nyz T / real_of_int n / (- 4 * M_PI)"
  using assms by (auto simp: demag_normalise_def Let_def split: if_splits)

lemma self_term:
  fixes x n :: real
  assumes "n \<noteq> 0"
  shows "(x / n - 4 * M_PI / 3) / (- 4 * M_PI) = 1 / 3 - x / n / (4 * M_PI)"
proof -
  have "M_PI \<noteq> 0" using M_PI_pos by simp
  then show ?thesis by (simp add: field_simps)
qed

lemma allreduce_demag_components:
  "allreduce_demag others N =
     \<lparr> Nxx = Nxx N + sum_list (map Nxx others), Nxy = Nxy N + sum_list (map Nxy others),
       Nxz = Nxz N + sum_list (map Nxz others), Nyy = Nyy N + sum_list (map Nyy others),
       Nyz = Nyz N + sum_list (map Nyz others), Nzz = Nzz N + sum_list (map Nzz others) \<rparr>"
  by (simp add: allreduce_demag_def allreduce_sum_def)

lemma demag_diagnostic_total:
  assumes "count_magnetic_atoms s = Inr n" and "demag_accumulate s = Inr N"
    and "int_ok (n + sum_list (map fst remote))"
  shows "demag_diagnostic remote s =
     Inr (if n + sum_list (map fst remote) = 0 then Inl Division_by_zero
          else Inr \<lparr>
            Nxx = ((Nxx N + sum_list (map (\<lambda>r. Nxx (snd r)) remote))
                     / real_of_int (n + sum_list (map fst remote)) - 4 * M_PI / 3) / (- 4 * M_PI),
            Nxy = ((Nxy N + sum_list (map (\<lambda>r. Nxy (snd r)) remote))
                     / real_of_int (n + sum_list (map fst remote))) / (- 4 * M_PI),
            Nxz = ((Nxz N + sum_list (map (\<lambda>r. Nxz (snd r)) remote))
                     / real_of_int (n + sum_list (map fst remote))) / (- 4 * M_PI),
            Nyy = ((Nyy N + sum_list (map (\<lambda>r. Nyy (snd r)) remote))
                     / real_of_int (n + sum_list (map fst remote)) - 4 * M_PI / 3) / (- 4 * M_PI),
            Nyz = ((Nyz N + sum_list (map (\<lambda>r. Nyz (snd r)) remote))
                     / real_of_int (n + sum_list (map fst remote))) / (- 4 * M_PI),
            Nzz = ((Nzz N + sum_list (map (\<lambda>r. Nzz (snd r)) remote))
                     / real_of_int (n + sum_list (map fst remote)) - 4 * M_PI / 3) / (- 4 * M_PI) \<rparr>)"
  using assms
  by (simp add: demag_diagnostic_def allreduce_count_def demag_normalise_def Let_def
      allreduce_demag_components comp_def)

lemma example_count_magnetic_atoms: "count_magnetic_atoms example_built = Inr 2"
  by code_simp

lemma example_demag_accumulate:
  "demag_accumulate example_built
     = Inr \<lparr> Nxx = 32, Nxy = 0, Nxz = 0, Nyy = - 16, Nyz = 0, Nzz = - 16 \<rparr>"
  by code_simp

section \<open>The accumulation of the demagnetizing tensor\<close>

lemma vec_at2_in_range:
  assumes "lc < length m" and "j < length (m ! lc)"
  shows "vec_at2 m (int lc) (int j) = Inr (m ! lc ! j)"
  using assms by (simp add: vec_at2_def vec_at_nat)

lemma shaped_array:
  assumes "length m = L \<and> (\<forall>row \<in> set m. length row = N)" and "lc < L" and "j < N"
  shows "vec_at2 m (int lc) (int j) = Inr (m ! lc ! j)"
proof -
  from assms have "lc < length m" by simp
  moreover from this assms(1) have "length (m ! lc) = N" by simp
  ultimately show ?thesis using assms(3) by (simp add: vec_at2_in_range)
qed

lemma rij_total_in_range:
  assumes "tensor_shape L N ts" and "lc < L" and "j < N"
  shows "rij_total ts (int lc) (int j) = Inr (per_component (\<lambda>A B. A ! lc ! j + B ! lc ! j) ts)"
proof -
  have r: "vec_at2 m (int lc) (int j) = Inr (m ! lc ! j)"
    if "m \<in> set [rij_inter_xx ts, rij_inter_xy ts, rij_inter_xz ts,
        rij_inter_yy ts, rij_inter_yz ts, rij_inter_zz ts,
        rij_intra_xx ts, rij_intra_xy ts, rij_intra_xz ts,
        rij_intra_yy ts, rij_intra_yz ts, rij_intra_zz ts]" for m
  proof (rule shaped_array[OF _ assms(2,3)])
    from assms(1) that show "length m = L \<and> (\<forall>row \<in> set m. length row = N)"
      unfolding tensor_shape_def list_all_iff by blast
  qed
  show ?thesis unfolding rij_total_def by (simp add: r per_component_def)
qed

lemma demag_plus_zero: "demag_plus a (per_component (\<lambda>A B. 0) ts) = a"
  by (simp add: demag_plus_def per_component_def)

lemma demag_plus_per_component:
  "demag_plus (demag_plus a (per_component f ts)) (per_component g ts)
     = demag_plus a (per_component (\<lambda>A B. f A B + g A B) ts)"
  by (simp add: demag_plus_def per_component_def)

lemma demag_add_scaled_per_component:
  "demag_add_scaled a c (per_component f ts) = demag_plus a (per_component (\<lambda>A B. c * f A B) ts)"
  by (simp add: demag_add_scaled_def demag_plus_def per_component_def)

lemma well_formed_cell_id:
  assumes "well_formed s" and "lc < nat (cells_num_local_cells s)"
  shows "vec_at (cells_ns_cell_id_array s) (int lc) = Inr (cells_ns_cell_id_array s ! lc)"
    and "vec_at (cells_num_atoms_in_cell s) (cells_ns_cell_id_array s ! lc)
           = Inr (cells_num_atoms_in_cell s ! nat (cells_ns_cell_id_array s ! lc))"
    and "0 \<le> cells_num_atoms_in_cell s ! nat (cells_ns_cell_id_array s ! lc)"
proof -
  let ?ids = "cells_ns_cell_id_array s" and ?n = "cells_num_atoms_in_cell s"
  from assms have len: "lc < length ?ids" by (simp add: well_formed_def)
  then show "vec_at ?ids (int lc) = Inr (?ids ! lc)" by (rule vec_at_nat)
  from assms have "list_all (\<lambda>i. 0 \<le> i \<and> i < int (length ?n))
       (take (nat (cells_num_local_cells s)) ?ids)" by (simp add: well_formed_def)
  with assms(2) len have i: "0 \<le> ?ids ! lc \<and> ?ids ! lc < int (length ?n)"
    by (simp add: list_all_length)
  then show "vec_at ?n (?ids ! lc) = Inr (?n ! nat (?ids ! lc))" by (simp add: vec_at_def)
  from assms(1) have "list_all (\<lambda>n. 0 \<le> n) ?n" by (simp add: well_formed_def)
  moreover from i have "nat (?ids ! lc) < length ?n" by linarith
  ultimately show "0 \<le> ?n ! nat (?ids ! lc)" by (simp add: list_all_length)
qed

lemma well_formed_cell:
  assumes "well_formed s" and "j < nat (cells_num_cells s)"
  shows "vec_at (cells_num_atoms_in_cell s) (int j) = Inr (cells_num_atoms_in_cell s ! j)"
    and "vec_at (cells_volume_array s) (int j) = Inr (cells_volume_array s ! j)"
    and "0 \<le> cells_num_atoms_in_cell s ! j"
proof -
  from assms have l: "j < length (cells_num_atoms_in_cell s)" "j < length (cells_volume_array s)"
    by (simp_all add: well_formed_def)
  then show "vec_at (cells_num_atoms_in_cell s) (int j) = Inr (cells_num_atoms_in_cell s ! j)"
    "vec_at (cells_volume_array s) (int j) = Inr (cells_volume_array s ! j)"
    by (simp_all add: vec_at_nat)
  from assms(1) have "list_all (\<lambda>n. 0 \<le> n) (cells_num_atoms_in_cell s)"
    by (simp add: well_formed_def)
  with l show "0 \<le> cells_num_atoms_in_cell s ! j" by (simp add: list_all_length)
qed

lemma demag_cell_pair_step:
  assumes wf: "well_formed s" and lc: "lc < nat (cells_num_local_cells s)"
    and j: "j < nat (cells_num_cells s)"
    and ni: "0 < cells_num_atoms_in_cell s ! nat (cells_ns_cell_id_array s ! lc)"
  shows "demag_cell_pair s lc (cells_ns_cell_id_array s ! lc) j acc
           = Inr (demag_plus acc (per_component (\<lambda>A B. spec_pair_term s A B lc j) (rij s)))"
proof -
  let ?n = "cells_num_atoms_in_cell s"
  let ?i = "cells_ns_cell_id_array s ! lc"
  note rj = well_formed_cell[OF wf j]
  note ri = well_formed_cell_id[OF wf lc]
  show ?thesis
  proof (cases "0 < ?n ! j")
    case True
    have sh: "tensor_shape (nat (cells_num_local_cells s)) (nat (cells_num_cells s)) (rij s)"
      using wf by (simp add: well_formed_def)
    have d: "fdiv (cells_volume_array s ! j) (real_of_int (?n ! j))
               = Inr (cells_volume_array s ! j / real_of_int (?n ! j))"
      using True by (simp add: fdiv_def)
    have "demag_cell_pair s lc ?i j acc
        = Inr (demag_add_scaled acc
            (cells_volume_array s ! j / real_of_int (?n ! j) * real_of_int (?n ! j)
               * real_of_int (?n ! nat ?i))
            (per_component (\<lambda>A B. A ! lc ! j + B ! lc ! j) (rij s)))"
      unfolding demag_cell_pair_def rj(1,2) ri(2) d rij_total_in_range[OF sh lc j] ebind_Inr Let_def
      using True by simp
    also have "\<dots> = Inr (demag_plus acc (per_component (\<lambda>A B. spec_pair_term s A B lc j) (rij s)))"
      unfolding demag_add_scaled_per_component using True ni
      by (simp add: spec_pair_term_def Let_def)
    finally show ?thesis .
  next
    case False
    with rj(3) have z: "?n ! j = 0" by simp
    have "demag_cell_pair s lc ?i j acc = Inr acc"
      unfolding demag_cell_pair_def rj(1) ebind_Inr using z by simp
    moreover have "(\<lambda>A B. spec_pair_term s A B lc j) = (\<lambda>A B. 0)"
      using z by (simp add: spec_pair_term_def Let_def)
    ultimately show ?thesis by (simp add: demag_plus_zero)
  qed
qed

lemma demag_inner_loop:
  assumes wf: "well_formed s" and lc: "lc < nat (cells_num_local_cells s)"
    and ni: "0 < cells_num_atoms_in_cell s ! nat (cells_ns_cell_id_array s ! lc)"
  shows "for_loop 0 (nat (cells_num_cells s))
           (demag_cell_pair s lc (cells_ns_cell_id_array s ! lc)) acc
         = Inr (demag_plus acc (per_component
             (\<lambda>A B. \<Sum>j\<leftarrow>[0..<nat (cells_num_cells s)]. spec_pair_term s A B lc j) (rij s)))"
proof -
  let ?P = "\<lambda>k a. a = demag_plus acc (per_component
             (\<lambda>A B. \<Sum>j\<leftarrow>[0..<k]. spec_pair_term s A B lc j) (rij s))"
  have "\<exists>r. for_loop 0 (nat (cells_num_cells s))
           (demag_cell_pair s lc (cells_ns_cell_id_array s ! lc)) acc = Inr r
         \<and> ?P (0 + nat (cells_num_cells s)) r"
  proof (rule for_loop_rule)
    show "?P 0 acc" by (simp add: demag_plus_zero)
  next
    fix j a assume "0 \<le> j" and j: "j < 0 + nat (cells_num_cells s)" and a: "?P j a"
    from j have j': "j < nat (cells_num_cells s)" by simp
    have "demag_cell_pair s lc (cells_ns_cell_id_array s ! lc) j a
        = Inr (demag_plus a (per_component (\<lambda>A B. spec_pair_term s A B lc j) (rij s)))"
      by (rule demag_cell_pair_step[OF wf lc j' ni])
    moreover have "?P (Suc j)
        (demag_plus a (per_component (\<lambda>A B. spec_pair_term s A B lc j) (rij s)))"
      unfolding a demag_plus_per_component by simp
    ultimately show "\<exists>b. demag_cell_pair s lc (cells_ns_cell_id_array s ! lc) j a = Inr b
                       \<and> ?P (Suc j) b" by simp
  qed
  then show ?thesis by simp
qed

lemma demag_local_cell_step:
  assumes wf: "well_formed s" and lc: "lc < nat (cells_num_local_cells s)"
  shows "demag_local_cell s lc acc
         = Inr (demag_plus acc (per_component
             (\<lambda>A B. \<Sum>j\<leftarrow>[0..<nat (cells_num_cells s)]. spec_pair_term s A B lc j) (rij s)))"
proof -
  let ?n = "cells_num_atoms_in_cell s"
  let ?i = "cells_ns_cell_id_array s ! lc"
  note ri = well_formed_cell_id[OF wf lc]
  show ?thesis
  proof (cases "0 < ?n ! nat ?i")
    case True
    from wf have "length (rij_inter_xx (rij s)) = nat (cells_num_local_cells s)
        \<and> list_all (\<lambda>row. length row = nat (cells_num_cells s)) (rij_inter_xx (rij s))"
      by (simp add: well_formed_def tensor_shape_def)
    with lc have row: "vec_at (rij_inter_xx (rij s)) (int lc) = Inr (rij_inter_xx (rij s) ! lc)"
      and len: "length (rij_inter_xx (rij s) ! lc) = nat (cells_num_cells s)"
      by (simp_all add: vec_at_nat list_all_length)
    show ?thesis
      unfolding demag_local_cell_def ri(1,2) row ebind_Inr len
      using True demag_inner_loop[OF wf lc True] by simp
  next
    case False
    with ri(3) have z: "?n ! nat ?i = 0" by simp
    have "demag_local_cell s lc acc = Inr acc"
      unfolding demag_local_cell_def ri(1,2) ebind_Inr using z by simp
    moreover have "(\<lambda>A B. \<Sum>j\<leftarrow>[0..<nat (cells_num_cells s)]. spec_pair_term s A B lc j)
        = (\<lambda>A B. 0)"
      using z by (simp add: spec_pair_term_def Let_def)
    ultimately show ?thesis by (simp add: demag_plus_zero)
  qed
qed

lemma demag_accumulate_well_formed:
  assumes wf: "well_formed s"
  shows "demag_accumulate s = Inr (spec_demag_totals s)"
proof -
  let ?P = "\<lambda>k a. a = demag_plus demag_zero (per_component
             (\<lambda>A B. \<Sum>lc\<leftarrow>[0..<k]. \<Sum>j\<leftarrow>[0..<nat (cells_num_cells s)].
                 spec_pair_term s A B lc j) (rij s))"
  have "\<exists>r. for_loop 0 (nat (cells_num_local_cells s)) (demag_local_cell s) demag_zero = Inr r
         \<and> ?P (0 + nat (cells_num_local_cells s)) r"
  proof (rule for_loop_rule)
    show "?P 0 demag_zero" by (simp add: demag_plus_zero)
  next
    fix lc a assume "0 \<le> lc" and lc: "lc < 0 + nat (cells_num_local_cells s)" and a: "?P lc a"
    from lc have lc': "lc < nat (cells_num_local_cells s)" by simp
    note st = demag_local_cell_step[OF wf lc', of a]
    moreover have "?P (Suc lc) (demag_plus a (per_component
             (\<lambda>A B. \<Sum>j\<leftarrow>[0..<nat (cells_num_cells s)]. spec_pair_term s A B lc j) (rij s)))"
      unfolding a demag_plus_per_component by simp
    ultimately show "\<exists>b. demag_local_cell s lc a = Inr b \<and> ?P (Suc lc) b" by simp
  qed
  moreover have "demag_plus demag_zero (per_component f ts) = per_component f ts" for f ts
    by (simp add: demag_plus_def demag_zero_def per_component_def)
  moreover have "spec_demag_total s
      = (\<lambda>A B. \<Sum>lc\<leftarrow>[0..<nat (cells_num_local_cells s)].
           \<Sum>j\<leftarrow>[0..<nat (cells_num_cells s)]. spec_pair_term s A B lc j)"
    by (intro ext) (simp add: spec_demag_total_def)
  ultimately show ?thesis
    by (simp add: demag_accumulate_def spec_demag_totals_def)
qed

lemma no_division_ebind:
  assumes "m \<noteq> Inl Division_by_zero" and "\<And>x. f x \<noteq> Inl Division_by_zero"
  shows "ebind m f \<noteq> Inl Division_by_zero"
  using assms by (cases m) simp_all

lemma vec_at2_not_division: "vec_at2 m lc j \<noteq> Inl Division_by_zero"
  unfolding vec_at2_def by (intro no_division_ebind vec_at_not_division)

lemma rij_total_not_division: "rij_total ts lc j \<noteq> Inl Division_by_zero"
  unfolding rij_total_def by (intro no_division_ebind vec_at2_not_division) simp

lemma demag_cell_pair_not_division: "demag_cell_pair s lc i j N \<noteq> Inl Division_by_zero"
  unfolding demag_cell_pair_def
proof (rule no_division_ebind[OF vec_at_not_division])
  fix nj :: int
  show "(if 0 < nj then
       ebind (vec_at (cells_volume_array s) (int j)) (\<lambda>vol.
       ebind (fdiv vol (real_of_int nj)) (\<lambda>Vatomic.
       ebind (vec_at (cells_num_atoms_in_cell s) i) (\<lambda>ni.
       let factor = Vatomic * real_of_int nj * real_of_int ni in
       ebind (rij_total (rij s) (int lc) (int j)) (\<lambda>t.
         Inr (demag_add_scaled N factor t)))))
     else Inr N) \<noteq> Inl Division_by_zero"
  proof (cases "0 < nj")
    case True
    then have d: "fdiv vol (real_of_int nj) \<noteq> Inl Division_by_zero" for vol
      by (simp add: fdiv_def)
    show ?thesis using True unfolding Let_def
      by (simp only: if_True)
        (intro no_division_ebind vec_at_not_division d rij_total_not_division, simp)
  next
    case False
    then show ?thesis by simp
  qed
qed

lemma demag_local_cell_not_division: "demag_local_cell s lc N \<noteq> Inl Division_by_zero"
proof
  assume "demag_local_cell s lc N = Inl Division_by_zero"
  then obtain i and row :: "real list" where
    "for_loop 0 (length row) (demag_cell_pair s lc i) N = Inl Division_by_zero"
    by (auto simp: demag_local_cell_def ebind_eq_Inl vec_at_not_division split: if_splits)
  from for_loop_failure[OF this] demag_cell_pair_not_division show False by blast
qed

lemma demag_accumulate_not_division: "demag_accumulate s \<noteq> Inl Division_by_zero"
proof
  assume "demag_accumulate s = Inl Division_by_zero"
  from for_loop_failure[OF this[unfolded demag_accumulate_def]] demag_local_cell_not_division
  show False by blast
qed

lemma demag_cell_pair_skips_empty:
  assumes "vec_at (cells_num_atoms_in_cell s) (int j) = Inr 0"
  shows "demag_cell_pair s lc i j N = Inr N"
  using assms by (simp add: demag_cell_pair_def)

lemma demag_local_cell_skips_empty:
  assumes "vec_at (cells_ns_cell_id_array s) (int lc) = Inr i"
    and "vec_at (cells_num_atoms_in_cell s) i = Inr 0"
  shows "demag_local_cell s lc N = Inr N"
  using assms by (simp add: demag_local_cell_def)

section \<open>The lifecycle guard\<close>

text \<open>
  C8. With the feature flag \<^verbatim>\<open>dipole::activated\<close> off, \<^verbatim>\<open>dipole::initialize\<close> returns at once
  and changes nothing, whatever its arguments: the state after the call is the state before
  it, so no tensor storage is allocated, nothing is written to the log or the console, and the
  initialised flag is not set.
\<close>

theorem initialize_deactivated_is_noop:
  assumes "\<not> activated s"
  shows "initialize solver remote a s = Inr s"
  using assms by (simp add: initialize_def)

theorem initialize_deactivated_is_noop_witness:
  "\<not> activated (example_state \<lparr> activated := False \<rparr>)
   \<and> initialize example_solver [] example_args (example_state \<lparr> activated := False \<rparr>)
       = Inr (example_state \<lparr> activated := False \<rparr>)
   \<and> rij (example_state \<lparr> activated := False \<rparr>) = empty_tensors
   \<and> trace (example_state \<lparr> activated := False \<rparr>) = []
   \<and> \<not> initialised (example_state \<lparr> activated := False \<rparr>)"
proof -
  have h: "\<not> activated (example_state \<lparr> activated := False \<rparr>)" by simp
  from initialize_deactivated_is_noop[OF h, of example_solver "[]" example_args] h
  show ?thesis by (simp add: example_state_def)
qed

text \<open>
  C1. Calling \<^verbatim>\<open>dipole::initialize\<close> when the module is already initialised logs a warning
  and returns without any other effect. In every state with the initialised flag set the call
  returns, and the tensor data, the flag and every variable but the log are as before. In
  every such state that a run reaches from a state where the module is not initialised (so the
  flag was set by a first call), the call returns the same state with exactly the warning
  added to the log.
\<close>

theorem reinitialize_is_idempotent:
  "(initialised s \<longrightarrow>
      (\<exists>s'. initialize solver remote a s = Inr s'
            \<and> rij s' = rij s \<and> initialised s' \<and> s' = s\<lparr> trace := trace s' \<rparr>))
   \<and> (\<not> initialised s0 \<and> run solver0 remote0 opes s0 = Inr s \<and> initialised s \<longrightarrow>
        initialize solver remote a s = Inr (s\<lparr> trace := trace s @ [Zlog Already_initialised] \<rparr>))"
proof (intro conjI impI)
  assume "initialised s"
  then show "\<exists>s'. initialize solver remote a s = Inr s'
            \<and> rij s' = rij s \<and> initialised s' \<and> s' = s\<lparr> trace := trace s' \<rparr>"
    by (cases "activated s") (simp_all add: initialize_def emit_def)
next
  assume h: "\<not> initialised s0 \<and> run solver0 remote0 opes s0 = Inr s \<and> initialised s"
  then have "initialised s0 \<longrightarrow> activated s0" by simp
  from run_keeps_activation[OF this, of solver0 remote0 opes s] h have "activated s" by simp
  with h show "initialize solver remote a s
      = Inr (s\<lparr> trace := trace s @ [Zlog Already_initialised] \<rparr>)"
    by (simp add: initialize_def emit_def)
qed

theorem reinitialize_is_idempotent_witness:
  "\<not> initialised example_state
   \<and> run example_solver [] [Initialize example_args] example_state = Inr example_initialised
   \<and> initialised example_initialised
   \<and> initialize example_solver [] example_args example_initialised
       = Inr (example_initialised
               \<lparr> trace := trace example_initialised @ [Zlog Already_initialised] \<rparr>)
   \<and> rij (example_initialised
               \<lparr> trace := trace example_initialised @ [Zlog Already_initialised] \<rparr>)
       = rij example_initialised
   \<and> rij example_initialised = example_tensors"
proof -
  have h1: "\<not> initialised example_state" by (simp add: example_state_def)
  have h2: "initialised example_initialised"
    by (simp add: example_initialised_def example_built_def)
  have r: "rij example_initialised = example_tensors"
    by (simp add: example_initialised_def example_built_def)
  from reinitialize_is_idempotent[of example_initialised example_solver "[]" example_args
      example_state example_solver "[]" "[Initialize example_args]"]
    h1 h2 example_first_run
  have "initialize example_solver [] example_args example_initialised
       = Inr (example_initialised
               \<lparr> trace := trace example_initialised @ [Zlog Already_initialised] \<rparr>)"
    by blast
  with h1 h2 r example_first_run show ?thesis by simp
qed

text \<open>
  C2. On the first successful call (module switched on, not yet initialised)
  \<^verbatim>\<open>dipole::initialize\<close> performs, in this order: the allocation of the tensor storage, the
  tensor build, a barrier, the assignment to the initialised flag, one field evaluation, a
  second barrier and then, only when the simulated time is zero, the demagnetizing
  diagnostic. The call returns exactly when each of these returns, and then: the storage is
  allocated on the state that holds the two opening messages only; the builder is given the
  allocated storage, the copied arguments and the messages up to "Precalculating", and its
  arrays become the tensor data; the flag is set after the first barrier; the field evaluator
  is run on the state with the flag set; the diagnostic, at time zero, is computed on the state
  after the field evaluation and the second barrier, and its values are what the log receives.
\<close>

theorem initialize_steps_in_order:
  assumes "activated s" and "\<not> initialised s"
  shows "initialize solver remote a s = Inr s' \<longleftrightarrow>
    (\<exists>s_alloc mb s_pre s_built s_flag s_field s_upd.
       allocate_memory (arg_cells_num_local_cells a) (arg_cells_num_cells a)
         (emit [Cout Initialising, Zlog Initialising,
                Call_allocate_memory (arg_cells_num_local_cells a) (arg_cells_num_cells a)] s)
         = Inr s_alloc
     \<and> memory_required (arg_cells_num_cells a) (arg_cells_num_local_cells a) = Inr mb
     \<and> s_pre = emit [Zlog (Memory_required mb), Cout (Memory_required mb),
                      Zlog (Number_of_local_cells (arg_cells_num_local_cells a)),
                      Zlog (Number_of_total_cells (arg_cells_num_cells a)),
                      Zlog Precalculating, Cout Precalculating]
                 (s_alloc\<lparr> num_atoms := arg_num_atoms a,
                   atom_type_array := arg_atom_type_array a,
                   atom_cell_id_array := arg_atom_cell_id_array a,
                   cells_num_cells := arg_cells_num_cells a,
                   cells_num_local_cells := arg_cells_num_local_cells a,
                   cells_local_cell_array := arg_cells_local_cell_array a,
                   cells_num_atoms_in_cell := arg_cells_num_atoms_in_cell a,
                   cells_volume_array := arg_cells_volume_array a,
                   cells_pos_and_mom_array := arg_cells_pos_and_mom_array a \<rparr>)
     \<and> s_built = emit [Call_barrier, Cout Done, Zlog Precalculation_complete]
                 ((emit [Call_initialize_tensor_solver] s_pre)
                    \<lparr> rij := solver a s_pre,
                      cells_ns_num_cells := arg_cells_num_cells a,
                      cells_ns_num_atoms_in_cell := arg_cells_num_atoms_in_cell a \<rparr>)
     \<and> s_flag = emit [Set_initialised, Call_calculate_field] (s_built\<lparr> initialised := True \<rparr>)
     \<and> calculate_field s_flag = Inr s_field
     \<and> s_upd = emit [Call_barrier, Zlog Time_required, Zlog Outputting_dipole_matrix] s_field
     \<and> (if sim_time s = 0
         then \<exists>v. demag_diagnostic remote s_upd = Inr v
                \<and> s' = emit [Zlog Demag_header, Zlog (Demag_values v)] s_upd
         else s' = s_upd))
    \<and> (\<exists>new. trace s' = trace s @ new
         \<and> steps new = [Allocates_storage, Fills_tensor, Barrier, Sets_flag, Evaluates_field,
                         Barrier] @ (if sim_time s = 0 then [Runs_diagnostic] else []))
    \<and> initialised s'"
proof -
  have order: "\<exists>new. trace s' = trace s @ new
         \<and> steps new = [Allocates_storage, Fills_tensor, Barrier, Sets_flag, Evaluates_field,
                         Barrier] @ (if sim_time s = 0 then [Runs_diagnostic] else [])"
    and flag: "initialised s'"
    if run: "initialize solver remote a s = Inr s'"
  proof -
    from initialize_first_call[OF assms run] obtain mb tail where
      t: "trace s' = trace s @
           [Cout Initialising, Zlog Initialising,
            Call_allocate_memory (arg_cells_num_local_cells a) (arg_cells_num_cells a),
            Zlog (Memory_required mb), Cout (Memory_required mb),
            Zlog (Number_of_local_cells (arg_cells_num_local_cells a)),
            Zlog (Number_of_total_cells (arg_cells_num_cells a)),
            Zlog Precalculating, Cout Precalculating,
            Call_initialize_tensor_solver, Call_barrier, Cout Done, Zlog Precalculation_complete,
            Set_initialised, Call_calculate_field, Call_barrier, Zlog Time_required,
            Zlog Outputting_dipole_matrix] @ tail"
      and tail: "if sim_time s = 0 then \<exists>v. tail = [Zlog Demag_header, Zlog (Demag_values v)]
            else tail = []"
      and i: "initialised s'" by blast
    have "steps tail = (if sim_time s = 0 then [Runs_diagnostic] else [])"
      using tail by (auto simp: steps_def split: if_splits)
    then have "steps ([Cout Initialising, Zlog Initialising,
            Call_allocate_memory (arg_cells_num_local_cells a) (arg_cells_num_cells a),
            Zlog (Memory_required mb), Cout (Memory_required mb),
            Zlog (Number_of_local_cells (arg_cells_num_local_cells a)),
            Zlog (Number_of_total_cells (arg_cells_num_cells a)),
            Zlog Precalculating, Cout Precalculating,
            Call_initialize_tensor_solver, Call_barrier, Cout Done, Zlog Precalculation_complete,
            Set_initialised, Call_calculate_field, Call_barrier, Zlog Time_required,
            Zlog Outputting_dipole_matrix] @ tail)
         = [Allocates_storage, Fills_tensor, Barrier, Sets_flag, Evaluates_field, Barrier]
           @ (if sim_time s = 0 then [Runs_diagnostic] else [])"
      unfolding steps_append by (simp add: steps_def)
    with t show "\<exists>new. trace s' = trace s @ new
         \<and> steps new = [Allocates_storage, Fills_tensor, Barrier, Sets_flag, Evaluates_field,
                         Barrier] @ (if sim_time s = 0 then [Runs_diagnostic] else [])"
      by blast
    from i show "initialised s'" .
  qed
  note u = initialize_unfolded[OF assms, of solver remote a s']
  show ?thesis
  proof
    assume run: "initialize solver remote a s = Inr s'"
    from u[THEN iffD1, OF run] order[OF run] flag[OF run]
    show "(\<exists>s_alloc mb s_pre s_built s_flag s_field s_upd.
       allocate_memory (arg_cells_num_local_cells a) (arg_cells_num_cells a)
         (emit [Cout Initialising, Zlog Initialising,
                Call_allocate_memory (arg_cells_num_local_cells a) (arg_cells_num_cells a)] s)
         = Inr s_alloc
     \<and> memory_required (arg_cells_num_cells a) (arg_cells_num_local_cells a) = Inr mb
     \<and> s_pre = emit [Zlog (Memory_required mb), Cout (Memory_required mb),
                      Zlog (Number_of_local_cells (arg_cells_num_local_cells a)),
                      Zlog (Number_of_total_cells (arg_cells_num_cells a)),
                      Zlog Precalculating, Cout Precalculating]
                 (s_alloc\<lparr> num_atoms := arg_num_atoms a,
                   atom_type_array := arg_atom_type_array a,
                   atom_cell_id_array := arg_atom_cell_id_array a,
                   cells_num_cells := arg_cells_num_cells a,
                   cells_num_local_cells := arg_cells_num_local_cells a,
                   cells_local_cell_array := arg_cells_local_cell_array a,
                   cells_num_atoms_in_cell := arg_cells_num_atoms_in_cell a,
                   cells_volume_array := arg_cells_volume_array a,
                   cells_pos_and_mom_array := arg_cells_pos_and_mom_array a \<rparr>)
     \<and> s_built = emit [Call_barrier, Cout Done, Zlog Precalculation_complete]
                 ((emit [Call_initialize_tensor_solver] s_pre)
                    \<lparr> rij := solver a s_pre,
                      cells_ns_num_cells := arg_cells_num_cells a,
                      cells_ns_num_atoms_in_cell := arg_cells_num_atoms_in_cell a \<rparr>)
     \<and> s_flag = emit [Set_initialised, Call_calculate_field] (s_built\<lparr> initialised := True \<rparr>)
     \<and> calculate_field s_flag = Inr s_field
     \<and> s_upd = emit [Call_barrier, Zlog Time_required, Zlog Outputting_dipole_matrix] s_field
     \<and> (if sim_time s = 0
         then \<exists>v. demag_diagnostic remote s_upd = Inr v
                \<and> s' = emit [Zlog Demag_header, Zlog (Demag_values v)] s_upd
         else s' = s_upd))
    \<and> (\<exists>new. trace s' = trace s @ new
         \<and> steps new = [Allocates_storage, Fills_tensor, Barrier, Sets_flag, Evaluates_field,
                         Barrier] @ (if sim_time s = 0 then [Runs_diagnostic] else []))
    \<and> initialised s'"
      by (intro conjI)
  next
    assume "(\<exists>s_alloc mb s_pre s_built s_flag s_field s_upd.
       allocate_memory (arg_cells_num_local_cells a) (arg_cells_num_cells a)
         (emit [Cout Initialising, Zlog Initialising,
                Call_allocate_memory (arg_cells_num_local_cells a) (arg_cells_num_cells a)] s)
         = Inr s_alloc
     \<and> memory_required (arg_cells_num_cells a) (arg_cells_num_local_cells a) = Inr mb
     \<and> s_pre = emit [Zlog (Memory_required mb), Cout (Memory_required mb),
                      Zlog (Number_of_local_cells (arg_cells_num_local_cells a)),
                      Zlog (Number_of_total_cells (arg_cells_num_cells a)),
                      Zlog Precalculating, Cout Precalculating]
                 (s_alloc\<lparr> num_atoms := arg_num_atoms a,
                   atom_type_array := arg_atom_type_array a,
                   atom_cell_id_array := arg_atom_cell_id_array a,
                   cells_num_cells := arg_cells_num_cells a,
                   cells_num_local_cells := arg_cells_num_local_cells a,
                   cells_local_cell_array := arg_cells_local_cell_array a,
                   cells_num_atoms_in_cell := arg_cells_num_atoms_in_cell a,
                   cells_volume_array := arg_cells_volume_array a,
                   cells_pos_and_mom_array := arg_cells_pos_and_mom_array a \<rparr>)
     \<and> s_built = emit [Call_barrier, Cout Done, Zlog Precalculation_complete]
                 ((emit [Call_initialize_tensor_solver] s_pre)
                    \<lparr> rij := solver a s_pre,
                      cells_ns_num_cells := arg_cells_num_cells a,
                      cells_ns_num_atoms_in_cell := arg_cells_num_atoms_in_cell a \<rparr>)
     \<and> s_flag = emit [Set_initialised, Call_calculate_field] (s_built\<lparr> initialised := True \<rparr>)
     \<and> calculate_field s_flag = Inr s_field
     \<and> s_upd = emit [Call_barrier, Zlog Time_required, Zlog Outputting_dipole_matrix] s_field
     \<and> (if sim_time s = 0
         then \<exists>v. demag_diagnostic remote s_upd = Inr v
                \<and> s' = emit [Zlog Demag_header, Zlog (Demag_values v)] s_upd
         else s' = s_upd))
    \<and> (\<exists>new. trace s' = trace s @ new
         \<and> steps new = [Allocates_storage, Fills_tensor, Barrier, Sets_flag, Evaluates_field,
                         Barrier] @ (if sim_time s = 0 then [Runs_diagnostic] else []))
    \<and> initialised s'"
    then have "(\<exists>s_alloc mb s_pre s_built s_flag s_field s_upd.
       allocate_memory (arg_cells_num_local_cells a) (arg_cells_num_cells a)
         (emit [Cout Initialising, Zlog Initialising,
                Call_allocate_memory (arg_cells_num_local_cells a) (arg_cells_num_cells a)] s)
         = Inr s_alloc
     \<and> memory_required (arg_cells_num_cells a) (arg_cells_num_local_cells a) = Inr mb
     \<and> s_pre = emit [Zlog (Memory_required mb), Cout (Memory_required mb),
                      Zlog (Number_of_local_cells (arg_cells_num_local_cells a)),
                      Zlog (Number_of_total_cells (arg_cells_num_cells a)),
                      Zlog Precalculating, Cout Precalculating]
                 (s_alloc\<lparr> num_atoms := arg_num_atoms a,
                   atom_type_array := arg_atom_type_array a,
                   atom_cell_id_array := arg_atom_cell_id_array a,
                   cells_num_cells := arg_cells_num_cells a,
                   cells_num_local_cells := arg_cells_num_local_cells a,
                   cells_local_cell_array := arg_cells_local_cell_array a,
                   cells_num_atoms_in_cell := arg_cells_num_atoms_in_cell a,
                   cells_volume_array := arg_cells_volume_array a,
                   cells_pos_and_mom_array := arg_cells_pos_and_mom_array a \<rparr>)
     \<and> s_built = emit [Call_barrier, Cout Done, Zlog Precalculation_complete]
                 ((emit [Call_initialize_tensor_solver] s_pre)
                    \<lparr> rij := solver a s_pre,
                      cells_ns_num_cells := arg_cells_num_cells a,
                      cells_ns_num_atoms_in_cell := arg_cells_num_atoms_in_cell a \<rparr>)
     \<and> s_flag = emit [Set_initialised, Call_calculate_field] (s_built\<lparr> initialised := True \<rparr>)
     \<and> calculate_field s_flag = Inr s_field
     \<and> s_upd = emit [Call_barrier, Zlog Time_required, Zlog Outputting_dipole_matrix] s_field
     \<and> (if sim_time s = 0
         then \<exists>v. demag_diagnostic remote s_upd = Inr v
                \<and> s' = emit [Zlog Demag_header, Zlog (Demag_values v)] s_upd
         else s' = s_upd))" by (rule conjunct1)
    then show "initialize solver remote a s = Inr s'" by (rule u[THEN iffD2])
  qed
qed

theorem initialize_steps_in_order_witness:
  "activated example_state \<and> \<not> initialised example_state
   \<and> initialize example_solver [] example_args example_state = Inr example_initialised
   \<and> sim_time example_state = 0
   \<and> (\<exists>s_alloc. allocate_memory 2 2
          (emit [Cout Initialising, Zlog Initialising, Call_allocate_memory 2 2] example_state)
          = Inr s_alloc)
   \<and> (\<exists>new. trace example_initialised = trace example_state @ new
         \<and> steps new = [Allocates_storage, Fills_tensor, Barrier, Sets_flag, Evaluates_field,
                         Barrier, Runs_diagnostic])
   \<and> initialised example_initialised"
proof -
  have h1: "activated example_state" and h2: "\<not> initialised example_state"
    and h3: "sim_time example_state = 0" by (simp_all add: example_state_def)
  have args: "arg_cells_num_local_cells example_args = 2" "arg_cells_num_cells example_args = 2"
    by (simp_all add: example_args_def)
  note inst = initialize_steps_in_order[OF h1 h2, of example_solver "[]" example_args
      example_initialised, THEN iffD1, OF example_initialize]
  from inst have "\<exists>s_alloc. allocate_memory 2 2
          (emit [Cout Initialising, Zlog Initialising, Call_allocate_memory 2 2] example_state)
          = Inr s_alloc"
    unfolding args by blast
  moreover from inst h3 have "\<exists>new. trace example_initialised = trace example_state @ new
         \<and> steps new = [Allocates_storage, Fills_tensor, Barrier, Sets_flag, Evaluates_field,
                         Barrier, Runs_diagnostic]"
    by simp
  moreover from inst have "initialised example_initialised" by blast
  ultimately show ?thesis using h1 h2 h3 example_initialize by blast
qed

text \<open>
  C5. The claim is that the memory estimate written to the log and the console equals the
  documented storage of \<open>num_local_cells \<times> num_cells \<times> 12\<close> scalars of 8 bytes. The code
  counts six scalars for each pair of cells. For the example of two cells, both local, the
  call writes 192/1000000 MB, that is 192 bytes, while the documented storage, and the
  storage of the twelve arrays after the call, is 384 bytes.
\<close>

theorem memory_estimate_is_half_the_storage:
  "initialize example_solver [] example_args example_state = Inr example_initialised
   \<and> Zlog (Memory_required (192 / 1000000)) \<in> set (trace example_initialised)
   \<and> Cout (Memory_required (192 / 1000000)) \<in> set (trace example_initialised)
   \<and> memory_required 2 2 = Inr (192 / 1000000)
   \<and> documented_storage_bytes 2 2 = 384
   \<and> (\<exists>s'. allocate_memory 2 2 example_state = Inr s' \<and> 8 * tensor_scalars (rij s') = 384)
   \<and> 8 * tensor_scalars (rij example_initialised) = 384"
proof -
  have "\<exists>s'. allocate_memory 2 2 example_state = Inr s' \<and> 8 * tensor_scalars (rij s') = 384"
    by (simp add: allocate_memory_def tensor_scalars_def Let_def numeral_2_eq_2)
  moreover
  have "memory_required 2 2 = Inr (192 / 1000000)"
    by (simp add: memory_required_def int_ok_def)
  moreover have "documented_storage_bytes 2 2 = 384"
    by (simp add: documented_storage_bytes_def)
  moreover have "8 * tensor_scalars (rij example_initialised) = 384"
    by (simp add: tensor_scalars_def example_initialised_def example_built_def
        example_tensors_def)
  moreover have "Zlog (Memory_required (192 / 1000000)) \<in> set (trace example_initialised)"
    "Cout (Memory_required (192 / 1000000)) \<in> set (trace example_initialised)"
    by (simp_all add: example_initialised_def)
  ultimately show ?thesis using example_initialize by blast
qed



section \<open>The demagnetizing diagnostic\<close>

text \<open>
  C3. In a well-formed state (the arrays sized \<open>num_local_cells \<times> num_cells\<close>, no negative
  population) the accumulation returns, and each of the six totals \<open>Nxx\<close> .. \<open>Nzz\<close> is the sum,
  over every local cell \<open>i\<close> with a non-zero population and every cell \<open>j\<close> with a non-zero
  population, of \<open>factor * (intra[i][j] + inter[i][j])\<close> for its component, with
  \<open>factor = V_atomic(j) * n_atoms(j) * n_atoms(i)\<close> and \<open>V_atomic(j)\<close> the volume of cell \<open>j\<close>
  divided by its atom count; a pair with an empty cell contributes nothing.
\<close>

theorem demag_accumulation:
  assumes "well_formed s"
  shows "demag_accumulate s =
     Inr \<lparr> Nxx = spec_demag_total s (rij_intra_xx (rij s)) (rij_inter_xx (rij s)),
           Nxy = spec_demag_total s (rij_intra_xy (rij s)) (rij_inter_xy (rij s)),
           Nxz = spec_demag_total s (rij_intra_xz (rij s)) (rij_inter_xz (rij s)),
           Nyy = spec_demag_total s (rij_intra_yy (rij s)) (rij_inter_yy (rij s)),
           Nyz = spec_demag_total s (rij_intra_yz (rij s)) (rij_inter_yz (rij s)),
           Nzz = spec_demag_total s (rij_intra_zz (rij s)) (rij_inter_zz (rij s)) \<rparr>"
  using demag_accumulate_well_formed[OF assms]
  by (simp add: spec_demag_totals_def per_component_def)

theorem demag_accumulation_witness:
  "well_formed example_built
   \<and> demag_accumulate example_built
       = Inr \<lparr> Nxx = 32, Nxy = 0, Nxz = 0, Nyy = - 16, Nyz = 0, Nzz = - 16 \<rparr>"
proof -
  have wf: "well_formed example_built" by code_simp
  have v: "spec_demag_total example_built (rij_intra_xx (rij example_built))
             (rij_inter_xx (rij example_built)) = 32"
    "spec_demag_total example_built (rij_intra_xy (rij example_built))
             (rij_inter_xy (rij example_built)) = 0"
    "spec_demag_total example_built (rij_intra_xz (rij example_built))
             (rij_inter_xz (rij example_built)) = 0"
    "spec_demag_total example_built (rij_intra_yy (rij example_built))
             (rij_inter_yy (rij example_built)) = - 16"
    "spec_demag_total example_built (rij_intra_yz (rij example_built))
             (rij_inter_yz (rij example_built)) = 0"
    "spec_demag_total example_built (rij_intra_zz (rij example_built))
             (rij_inter_zz (rij example_built)) = - 16"
    by code_simp+
  from demag_accumulation[OF wf] wf show ?thesis unfolding v by simp
qed

lemma demag_normalisation_values:
  assumes "demag_diagnostic remote s = Inr (Inr R)"
  shows "\<exists>n N n_total T.
           count_magnetic_atoms s = Inr n \<and> demag_accumulate s = Inr N
         \<and> n = (\<Sum>lc\<leftarrow>[0..<nat (cells_num_local_cells s)].
                   cells_num_atoms_in_cell s ! nat (cells_ns_cell_id_array s ! lc))
         \<and> n_total = real_of_int (n + sum_list (map fst remote))
         \<and> T = allreduce_demag (map snd remote) N
         \<and> n_total \<noteq> 0
         \<and> Nxx R = (Nxx T / n_total - 4 * M_PI / 3) / (- 4 * M_PI)
         \<and> Nyy R = (Nyy T / n_total - 4 * M_PI / 3) / (- 4 * M_PI)
         \<and> Nzz R = (Nzz T / n_total - 4 * M_PI / 3) / (- 4 * M_PI)
         \<and> Nxy R = Nxy T / n_total / (- 4 * M_PI)
         \<and> Nxz R = Nxz T / n_total / (- 4 * M_PI)
         \<and> Nyz R = Nyz T / n_total / (- 4 * M_PI)
         \<and> Nxx R = 1 / 3 - Nxx T / n_total / (4 * M_PI)
         \<and> Nyy R = 1 / 3 - Nyy T / n_total / (4 * M_PI)
         \<and> Nzz R = 1 / 3 - Nzz T / n_total / (4 * M_PI)"
proof -
  from assms obtain n N m where n: "count_magnetic_atoms s = Inr n"
    and N: "demag_accumulate s = Inr N"
    and m: "allreduce_count (map fst remote) n = Inr m"
    and R: "demag_normalise (allreduce_demag (map snd remote) N) m = Inr R"
    by (auto simp: demag_diagnostic_def ebind_eq_Inr)
  from m have m_eq: "m = n + sum_list (map fst remote)"
    by (auto simp: allreduce_count_def split: if_splits)
  let ?T = "allreduce_demag (map snd remote) N"
  let ?nt = "real_of_int (n + sum_list (map fst remote))"
  from demag_normalise_eq_Inr[OF R] m_eq have nz: "?nt \<noteq> 0"
    and d: "Nxx R = (Nxx ?T / ?nt - 4 * M_PI / 3) / (- 4 * M_PI)"
           "Nyy R = (Nyy ?T / ?nt - 4 * M_PI / 3) / (- 4 * M_PI)"
           "Nzz R = (Nzz ?T / ?nt - 4 * M_PI / 3) / (- 4 * M_PI)"
    and o: "Nxy R = Nxy ?T / ?nt / (- 4 * M_PI)"
           "Nxz R = Nxz ?T / ?nt / (- 4 * M_PI)"
           "Nyz R = Nyz ?T / ?nt / (- 4 * M_PI)"
    by simp_all
  have d': "Nxx R = 1 / 3 - Nxx ?T / ?nt / (4 * M_PI)"
           "Nyy R = 1 / 3 - Nyy ?T / ?nt / (4 * M_PI)"
           "Nzz R = 1 / 3 - Nzz ?T / ?nt / (4 * M_PI)"
    unfolding d by (rule self_term[OF nz])+
  from n N count_magnetic_atoms_sum[OF n] nz d o d' show ?thesis
    by (intro exI[of _ n] exI[of _ N] exI[of _ ?nt] exI[of _ ?T]) blast
qed

text \<open>
  C4. After the accumulation and the reduction over the workers, each of the six totals is
  divided by the total number of magnetic atoms and by \<open>-4\<pi>\<close>; before the division by \<open>-4\<pi>\<close>
  the self term \<open>4\<pi>/3\<close> is subtracted from the three diagonal components and from no other.
  Whenever the count and the accumulation return and the reduced count is in range, the
  diagnostic returns, and the tensor it prints is given by these formulas on the reduced
  totals (non-finite numbers when there is no magnetic atom). Conversely every printed tensor
  arises so; a diagonal component is \<open>1/3\<close> less the total over \<open>4\<pi>\<close> times the atom count, and
  an off-diagonal component has no constant term. Here \<open>\<pi>\<close> is the constant \<^verbatim>\<open>M_PI\<close>.
\<close>

theorem demag_normalisation:
  "(count_magnetic_atoms s = Inr n \<and> demag_accumulate s = Inr N
      \<and> int_ok (n + sum_list (map fst remote)) \<longrightarrow>
    demag_diagnostic remote s =
     Inr (if n + sum_list (map fst remote) = 0 then Inl Division_by_zero
          else Inr \<lparr>
            Nxx = ((Nxx N + sum_list (map (\<lambda>r. Nxx (snd r)) remote))
                     / real_of_int (n + sum_list (map fst remote)) - 4 * M_PI / 3) / (- 4 * M_PI),
            Nxy = ((Nxy N + sum_list (map (\<lambda>r. Nxy (snd r)) remote))
                     / real_of_int (n + sum_list (map fst remote))) / (- 4 * M_PI),
            Nxz = ((Nxz N + sum_list (map (\<lambda>r. Nxz (snd r)) remote))
                     / real_of_int (n + sum_list (map fst remote))) / (- 4 * M_PI),
            Nyy = ((Nyy N + sum_list (map (\<lambda>r. Nyy (snd r)) remote))
                     / real_of_int (n + sum_list (map fst remote)) - 4 * M_PI / 3) / (- 4 * M_PI),
            Nyz = ((Nyz N + sum_list (map (\<lambda>r. Nyz (snd r)) remote))
                     / real_of_int (n + sum_list (map fst remote))) / (- 4 * M_PI),
            Nzz = ((Nzz N + sum_list (map (\<lambda>r. Nzz (snd r)) remote))
                     / real_of_int (n + sum_list (map fst remote)) - 4 * M_PI / 3) / (- 4 * M_PI) \<rparr>))
   \<and> (demag_diagnostic remote s = Inr (Inr R) \<longrightarrow>
        (\<exists>n' N' n_total T.
           count_magnetic_atoms s = Inr n' \<and> demag_accumulate s = Inr N'
         \<and> n' = (\<Sum>lc\<leftarrow>[0..<nat (cells_num_local_cells s)].
                   cells_num_atoms_in_cell s ! nat (cells_ns_cell_id_array s ! lc))
         \<and> n_total = real_of_int (n' + sum_list (map fst remote))
         \<and> T = allreduce_demag (map snd remote) N'
         \<and> n_total \<noteq> 0
         \<and> Nxx R = (Nxx T / n_total - 4 * M_PI / 3) / (- 4 * M_PI)
         \<and> Nyy R = (Nyy T / n_total - 4 * M_PI / 3) / (- 4 * M_PI)
         \<and> Nzz R = (Nzz T / n_total - 4 * M_PI / 3) / (- 4 * M_PI)
         \<and> Nxy R = Nxy T / n_total / (- 4 * M_PI)
         \<and> Nxz R = Nxz T / n_total / (- 4 * M_PI)
         \<and> Nyz R = Nyz T / n_total / (- 4 * M_PI)
         \<and> Nxx R = 1 / 3 - Nxx T / n_total / (4 * M_PI)
         \<and> Nyy R = 1 / 3 - Nyy T / n_total / (4 * M_PI)
         \<and> Nzz R = 1 / 3 - Nzz T / n_total / (4 * M_PI)))"
proof (intro conjI impI)
  assume "count_magnetic_atoms s = Inr n \<and> demag_accumulate s = Inr N
      \<and> int_ok (n + sum_list (map fst remote))"
  then show "demag_diagnostic remote s =
     Inr (if n + sum_list (map fst remote) = 0 then Inl Division_by_zero
          else Inr \<lparr>
            Nxx = ((Nxx N + sum_list (map (\<lambda>r. Nxx (snd r)) remote))
                     / real_of_int (n + sum_list (map fst remote)) - 4 * M_PI / 3) / (- 4 * M_PI),
            Nxy = ((Nxy N + sum_list (map (\<lambda>r. Nxy (snd r)) remote))
                     / real_of_int (n + sum_list (map fst remote))) / (- 4 * M_PI),
            Nxz = ((Nxz N + sum_list (map (\<lambda>r. Nxz (snd r)) remote))
                     / real_of_int (n + sum_list (map fst remote))) / (- 4 * M_PI),
            Nyy = ((Nyy N + sum_list (map (\<lambda>r. Nyy (snd r)) remote))
                     / real_of_int (n + sum_list (map fst remote)) - 4 * M_PI / 3) / (- 4 * M_PI),
            Nyz = ((Nyz N + sum_list (map (\<lambda>r. Nyz (snd r)) remote))
                     / real_of_int (n + sum_list (map fst remote))) / (- 4 * M_PI),
            Nzz = ((Nzz N + sum_list (map (\<lambda>r. Nzz (snd r)) remote))
                     / real_of_int (n + sum_list (map fst remote)) - 4 * M_PI / 3) / (- 4 * M_PI) \<rparr>)"
    using demag_diagnostic_total by blast
next
  assume "demag_diagnostic remote s = Inr (Inr R)"
  then show "\<exists>n' N' n_total T.
           count_magnetic_atoms s = Inr n' \<and> demag_accumulate s = Inr N'
         \<and> n' = (\<Sum>lc\<leftarrow>[0..<nat (cells_num_local_cells s)].
                   cells_num_atoms_in_cell s ! nat (cells_ns_cell_id_array s ! lc))
         \<and> n_total = real_of_int (n' + sum_list (map fst remote))
         \<and> T = allreduce_demag (map snd remote) N'
         \<and> n_total \<noteq> 0
         \<and> Nxx R = (Nxx T / n_total - 4 * M_PI / 3) / (- 4 * M_PI)
         \<and> Nyy R = (Nyy T / n_total - 4 * M_PI / 3) / (- 4 * M_PI)
         \<and> Nzz R = (Nzz T / n_total - 4 * M_PI / 3) / (- 4 * M_PI)
         \<and> Nxy R = Nxy T / n_total / (- 4 * M_PI)
         \<and> Nxz R = Nxz T / n_total / (- 4 * M_PI)
         \<and> Nyz R = Nyz T / n_total / (- 4 * M_PI)
         \<and> Nxx R = 1 / 3 - Nxx T / n_total / (4 * M_PI)
         \<and> Nyy R = 1 / 3 - Nyy T / n_total / (4 * M_PI)
         \<and> Nzz R = 1 / 3 - Nzz T / n_total / (4 * M_PI)"
    by (rule demag_normalisation_values)
qed

theorem demag_normalisation_witness:
  "count_magnetic_atoms example_built = Inr 2
   \<and> demag_accumulate example_built
       = Inr \<lparr> Nxx = 32, Nxy = 0, Nxz = 0, Nyy = - 16, Nyz = 0, Nzz = - 16 \<rparr>
   \<and> int_ok 4
   \<and> demag_diagnostic [(2, \<lparr> Nxx = 8, Nxy = 4, Nxz = 0, Nyy = 0, Nyz = 0, Nzz = 0 \<rparr>)] example_built
     = Inr (Inr \<lparr> Nxx = (40 / 4 - 4 * M_PI / 3) / (- 4 * M_PI), Nxy = 4 / 4 / (- 4 * M_PI),
                  Nxz = 0, Nyy = (- 16 / 4 - 4 * M_PI / 3) / (- 4 * M_PI), Nyz = 0,
                  Nzz = (- 16 / 4 - 4 * M_PI / 3) / (- 4 * M_PI) \<rparr>)
   \<and> (\<exists>n N n_total T.
         count_magnetic_atoms example_built = Inr n \<and> demag_accumulate example_built = Inr N
       \<and> n_total = real_of_int (n + 2)
       \<and> T = allreduce_demag [\<lparr> Nxx = 8, Nxy = 4, Nxz = 0, Nyy = 0, Nyz = 0, Nzz = 0 \<rparr>] N
       \<and> n_total \<noteq> 0
       \<and> (40 / 4 - 4 * M_PI / 3) / (- 4 * M_PI) = 1 / 3 - Nxx T / n_total / (4 * M_PI)
       \<and> 4 / 4 / (- 4 * M_PI) = Nxy T / n_total / (- 4 * M_PI))"
proof -
  let ?remote = "[(2 :: int, \<lparr> Nxx = 8, Nxy = 4, Nxz = 0, Nyy = 0, Nyz = 0, Nzz = 0 \<rparr>)]"
  let ?R = "\<lparr> Nxx = (40 / 4 - 4 * M_PI / 3) / (- 4 * M_PI), Nxy = 4 / 4 / (- 4 * M_PI),
                  Nxz = 0, Nyy = (- 16 / 4 - 4 * M_PI / 3) / (- 4 * M_PI), Nyz = 0,
                  Nzz = (- 16 / 4 - 4 * M_PI / 3) / (- 4 * M_PI) \<rparr>"
  have ok: "int_ok 4" by (simp add: int_ok_def)
  then have ok': "int_ok (2 + sum_list (map fst ?remote))" by simp
  note inst = demag_normalisation[where s = example_built and n = 2
      and N = "\<lparr> Nxx = 32, Nxy = 0, Nxz = 0, Nyy = - 16, Nyz = 0, Nzz = - 16 \<rparr>"
      and remote = ?remote and R = ?R]
  from inst example_count_magnetic_atoms example_demag_accumulate ok'
  have d: "demag_diagnostic ?remote example_built = Inr (Inr ?R)" by simp
  from inst d obtain n N n_total T where
    "count_magnetic_atoms example_built = Inr n" "demag_accumulate example_built = Inr N"
    "n_total = real_of_int (n + 2)"
    "T = allreduce_demag [\<lparr> Nxx = 8, Nxy = 4, Nxz = 0, Nyy = 0, Nyz = 0, Nzz = 0 \<rparr>] N"
    "n_total \<noteq> 0"
    "(40 / 4 - 4 * M_PI / 3) / (- 4 * M_PI) = 1 / 3 - Nxx T / n_total / (4 * M_PI)"
    "4 / 4 / (- 4 * M_PI) = Nxy T / n_total / (- 4 * M_PI)"
    by auto
  with example_count_magnetic_atoms example_demag_accumulate ok d show ?thesis by blast
qed

text \<open>
  C7. A cell with no atoms is skipped in both roles: as the partner cell \<open>j\<close> the body of the
  inner loop leaves the six totals as they are, and as the local cell \<open>i\<close> the inner loop is
  not entered. The division by the atom count of cell \<open>j\<close>, which gives the volume for each
  atom, is therefore never made with a zero divisor: in no state does the accumulation end in
  a division by zero.
\<close>

theorem zero_atom_cells_are_skipped:
  "demag_accumulate s \<noteq> Inl Division_by_zero
   \<and> demag_cell_pair s lc i j N \<noteq> Inl Division_by_zero
   \<and> (vec_at (cells_num_atoms_in_cell s) (int j) = Inr 0
        \<longrightarrow> demag_cell_pair s lc i j N = Inr N)
   \<and> (vec_at (cells_ns_cell_id_array s) (int lc) = Inr i
        \<and> vec_at (cells_num_atoms_in_cell s) i = Inr 0
        \<longrightarrow> demag_local_cell s lc N = Inr N)"
  using demag_accumulate_not_division demag_cell_pair_not_division
    demag_cell_pair_skips_empty demag_local_cell_skips_empty
  by blast

theorem zero_atom_cells_are_skipped_witness:
  "vec_at (cells_num_atoms_in_cell example_built) (int 1) = Inr 0
   \<and> demag_cell_pair example_built 1 1 1 demag_zero = Inr demag_zero
   \<and> vec_at (cells_ns_cell_id_array example_built) (int 1) = Inr 1
   \<and> vec_at (cells_num_atoms_in_cell example_built) 1 = Inr 0
   \<and> demag_local_cell example_built 1 demag_zero = Inr demag_zero
   \<and> demag_accumulate example_built \<noteq> Inl Division_by_zero"
proof -
  have h1: "vec_at (cells_num_atoms_in_cell example_built) (int 1) = Inr 0"
    and h2: "vec_at (cells_ns_cell_id_array example_built) (int 1) = Inr 1"
    and h3: "vec_at (cells_num_atoms_in_cell example_built) 1 = Inr 0"
    by (simp_all add: example_built_def example_state_def vec_at_def)
  note inst = zero_atom_cells_are_skipped[of example_built 1 1 1 demag_zero]
  from inst h1 have c1: "demag_cell_pair example_built 1 1 1 demag_zero = Inr demag_zero"
    by blast
  from inst h2 h3 have c2: "demag_local_cell example_built 1 demag_zero = Inr demag_zero"
    by blast
  from inst have c3: "demag_accumulate example_built \<noteq> Inl Division_by_zero" by blast
  from h1 h2 h3 c1 c2 c3 show ?thesis by blast
qed


end
